theory Spec2Isabelle
  imports Complex_Main
begin

section \<open>Errors raised by the backend\<close>

text \<open>
  \<^verbatim>\<open>middleware/errorHandler.ts\<close>: \<^verbatim>\<open>class CustomError extends Error\<close> carries a message,
  an HTTP status code, a symbolic code and optional details. The details are an untyped
  JavaScript value; the constructors below are the shapes the modelled functions build.
\<close>

text \<open>
  The \<^verbatim>\<open>message\<close> property of an error response's body, as \<^verbatim>\<open>data?.message\<close>
  reads it from the untyped body: \<open>NoMessage\<close> when the body is null or undefined, the
  property is undefined, or its value is falsy and not a string (null, 0, NaN, false);
  \<open>Text s\<close> for a string; \<open>NonString s\<close> for a truthy value that is not a string (an
  object, an array, a number, true), where \<open>s\<close> is the string JavaScript converts it to,
  \<^verbatim>\<open>[object Object]\<close> for a plain object.
\<close>

datatype bodyMessage = NoMessage | Text string | NonString string

datatype details =
    NoDetails
  | RetryAfter int
  | Payload bodyMessage
  | FailureDetails bodyMessage
  | ErrorText string
  | AnalysisId string

record CustomError =
  message :: string
  statusCode :: nat
  code :: string
  details :: details

section \<open>The AI Engine client and its circuit breaker\<close>

text \<open>
  \<^verbatim>\<open>services/aiEngineClient.ts\<close>. The breaker is one module-level object; the model
  passes it explicitly. \<^verbatim>\<open>Date.now()\<close> is an integer number of milliseconds and is an
  argument of every function that reads the clock. \<^verbatim>\<open>failures\<close> starts at 0 and is only
  incremented or reset to 0, so it is a natural number.
\<close>

datatype cbState = CLOSED | OPEN | HALF_OPEN

record CircuitBreakerState =
  failures :: nat
  lastFailureTime :: int
  state :: cbState

definition circuitBreaker :: CircuitBreakerState where
  "circuitBreaker = \<lparr> failures = 0, lastFailureTime = 0, state = CLOSED \<rparr>"

definition AI_ENGINE_TIMEOUT :: int where
  "AI_ENGINE_TIMEOUT = 120000"

definition CIRCUIT_BREAKER_THRESHOLD :: nat where
  "CIRCUIT_BREAKER_THRESHOLD = 5"

definition CIRCUIT_BREAKER_TIMEOUT :: int where
  "CIRCUIT_BREAKER_TIMEOUT = 60000"

definition CIRCUIT_BREAKER_RESET_TIMEOUT :: int where
  "CIRCUIT_BREAKER_RESET_TIMEOUT = 30000"

text \<open>
  \<^verbatim>\<open>checkCircuitBreaker\<close>: in state OPEN it either moves to HALF_OPEN (strictly more
  than the timeout has passed since the last failure) or throws the 503 error, leaving the
  breaker as it was. \<^verbatim>\<open>Math.ceil(x / 1000)\<close> on an integer \<open>x\<close> is \<open>- ((- x) div 1000)\<close>.
\<close>

definition checkCircuitBreaker :: "int \<Rightarrow> CircuitBreakerState \<Rightarrow> CustomError + CircuitBreakerState" where
  "checkCircuitBreaker now cb =
     (if state cb = OPEN then
        (if now - lastFailureTime cb > CIRCUIT_BREAKER_TIMEOUT
         then Inr (cb\<lparr>state := HALF_OPEN\<rparr>)
         else Inl \<lparr> message = ''AI Engine is temporarily unavailable. Please try again later.'',
                    statusCode = 503,
                    code = ''AI_ENGINE_UNAVAILABLE'',
                    details = RetryAfter
                      (- ((- (CIRCUIT_BREAKER_TIMEOUT - (now - lastFailureTime cb))) div 1000)) \<rparr>)
      else Inr cb)"

definition recordFailure :: "int \<Rightarrow> CircuitBreakerState \<Rightarrow> CircuitBreakerState" where
  "recordFailure now cb =
     (let cb1 = cb\<lparr>failures := failures cb + 1\<rparr>;
          cb2 = cb1\<lparr>lastFailureTime := now\<rparr>
      in if failures cb2 \<ge> CIRCUIT_BREAKER_THRESHOLD then cb2\<lparr>state := OPEN\<rparr> else cb2)"

definition recordSuccess :: "int \<Rightarrow> CircuitBreakerState \<Rightarrow> CircuitBreakerState" where
  "recordSuccess now cb =
     (if state cb = HALF_OPEN then cb\<lparr>state := CLOSED, failures := 0\<rparr>
      else if state cb = CLOSED then
        (if now - lastFailureTime cb > CIRCUIT_BREAKER_RESET_TIMEOUT
         then cb\<lparr>failures := 0\<rparr> else cb)
      else cb)"

text \<open>
  An \<^verbatim>\<open>AxiosError\<close> as \<^verbatim>\<open>mapAIEngineError\<close> reads it: \<^verbatim>\<open>error.code\<close>,
  \<^verbatim>\<open>error.response\<close> (status and, of the body, the value of \<^verbatim>\<open>data?.message\<close>)
  and \<^verbatim>\<open>error.message\<close>.
\<close>

record AxiosError =
  ax_code :: "string option"
  ax_response :: "(nat \<times> bodyMessage) option"
  ax_message :: string

text \<open>JavaScript's \<^verbatim>\<open>a || b\<close> on an optional string: the empty string is falsy too.\<close>

definition or_string :: "string option \<Rightarrow> string \<Rightarrow> string" where
  "or_string a b = (case a of None \<Rightarrow> b | Some s \<Rightarrow> if s = [] then b else s)"

text \<open>
  \<^verbatim>\<open>data?.message || fallback\<close> as the message of a new \<^verbatim>\<open>CustomError\<close>: the
  constructor hands it to \<^verbatim>\<open>Error\<close>, which stores its string form.
\<close>

definition messageOr :: "bodyMessage \<Rightarrow> string \<Rightarrow> string" where
  "messageOr a b =
     (case a of NoMessage \<Rightarrow> b | Text s \<Rightarrow> if s = [] then b else s | NonString s \<Rightarrow> s)"

definition mapAIEngineError :: "AxiosError \<Rightarrow> CustomError" where
  "mapAIEngineError error =
     (if ax_code error = Some ''ECONNABORTED'' \<or> ax_code error = Some ''ETIMEDOUT'' then
        \<lparr> message = ''AI analysis timeout. The content may be too large or complex.'',
          statusCode = 408, code = ''ANALYSIS_TIMEOUT'', details = NoDetails \<rparr>
      else if ax_code error = Some ''ECONNREFUSED'' then
        \<lparr> message = ''AI Engine is unavailable'',
          statusCode = 503, code = ''AI_ENGINE_UNAVAILABLE'', details = NoDetails \<rparr>
      else
        (let fallback =
           \<lparr> message = ''Failed to communicate with AI Engine'',
             statusCode = 500, code = ''AI_ENGINE_ERROR'', details = ErrorText (ax_message error) \<rparr>
         in case ax_response error of
              None \<Rightarrow> fallback
            | Some (status, data_message) \<Rightarrow>
                if status = 400 then
                  \<lparr> message = messageOr data_message ''Invalid content for analysis'',
                    statusCode = 400, code = ''INVALID_CONTENT'', details = Payload data_message \<rparr>
                else if status = 413 then
                  \<lparr> message = ''Content too large for analysis'',
                    statusCode = 413, code = ''CONTENT_TOO_LARGE'', details = NoDetails \<rparr>
                else if status = 500 then
                  \<lparr> message = ''AI analysis failed'',
                    statusCode = 500, code = ''ANALYSIS_FAILED'', details = FailureDetails data_message \<rparr>
                else fallback))"

text \<open>
  What happens inside the \<^verbatim>\<open>try\<close> block of \<^verbatim>\<open>analyzeImage\<close> / \<^verbatim>\<open>analyzeVideo\<close>
  once \<^verbatim>\<open>checkCircuitBreaker\<close> has returned: building the form data throws an error that
  is neither a \<^verbatim>\<open>CustomError\<close> nor an Axios error (no request is sent), or the request
  is posted and either answered with a payload or failed with an \<^verbatim>\<open>AxiosError\<close>.
\<close>

datatype 'd attempt = LocalThrow | PostOk 'd | PostFail AxiosError

text \<open>
  The gateway state: the breaker and the log of requests handed to
  \<^verbatim>\<open>aiEngineClient.post\<close> (endpoint and timeout in milliseconds).
\<close>

record gateway =
  breaker :: CircuitBreakerState
  posted :: "(string \<times> int) list"

definition gateway0 :: gateway where
  "gateway0 = \<lparr> breaker = circuitBreaker, posted = [] \<rparr>"

text \<open>
  The two exported functions have the same body up to the endpoint and the timeout
  (the client's default for images, twice that for videos). \<open>now\<close> is the clock read by
  \<^verbatim>\<open>checkCircuitBreaker\<close>, \<open>fin\<close> the clock read by \<^verbatim>\<open>recordSuccess\<close> or
  \<^verbatim>\<open>recordFailure\<close> when the call ends. The \<^verbatim>\<open>catch\<close> block calls
  \<^verbatim>\<open>recordFailure\<close> first, whatever was thrown, then rethrows a \<^verbatim>\<open>CustomError\<close>
  unchanged, maps an Axios error, and wraps anything else.
\<close>

definition engineCall ::
  "string \<Rightarrow> int \<Rightarrow> int \<Rightarrow> int \<Rightarrow> 'd attempt \<Rightarrow> gateway \<Rightarrow> (CustomError + 'd) \<times> gateway" where
  "engineCall endpoint tmo now fin att gw =
     (case checkCircuitBreaker now (breaker gw) of
        Inl e \<Rightarrow> (Inl e, gw\<lparr>breaker := recordFailure fin (breaker gw)\<rparr>)
      | Inr cb \<Rightarrow>
          (case att of
             LocalThrow \<Rightarrow>
               (Inl \<lparr> message = ''Unexpected error during analysis'',
                       statusCode = 500, code = ''ANALYSIS_FAILED'', details = NoDetails \<rparr>,
                gw\<lparr>breaker := recordFailure fin cb\<rparr>)
           | PostOk d \<Rightarrow>
               (Inr d,
                gw\<lparr>breaker := recordSuccess fin cb, posted := posted gw @ [(endpoint, tmo)]\<rparr>)
           | PostFail error \<Rightarrow>
               (Inl (mapAIEngineError error),
                gw\<lparr>breaker := recordFailure fin cb, posted := posted gw @ [(endpoint, tmo)]\<rparr>)))"

text \<open>
  The same body in two halves, for calls that overlap. Up to the \<^verbatim>\<open>await\<close> nothing
  suspends: the check, a rejection with its \<^verbatim>\<open>recordFailure\<close>, and a local exception
  with its \<^verbatim>\<open>recordFailure\<close> happen at once (the call is over, with the error), or
  the request is posted and the call is in flight. When the request settles,
  \<^verbatim>\<open>recordSuccess\<close> or \<^verbatim>\<open>recordFailure\<close> acts on the breaker as it is then.
\<close>

definition beginCall ::
  "string \<Rightarrow> int \<Rightarrow> int \<Rightarrow> int \<Rightarrow> 'd attempt \<Rightarrow> gateway \<Rightarrow> CustomError option \<times> gateway" where
  "beginCall endpoint tmo now fin att gw =
     (case checkCircuitBreaker now (breaker gw) of
        Inl e \<Rightarrow> (Some e, gw\<lparr>breaker := recordFailure fin (breaker gw)\<rparr>)
      | Inr cb \<Rightarrow>
          (case att of
             LocalThrow \<Rightarrow>
               (Some \<lparr> message = ''Unexpected error during analysis'',
                        statusCode = 500, code = ''ANALYSIS_FAILED'', details = NoDetails \<rparr>,
                gw\<lparr>breaker := recordFailure fin cb\<rparr>)
           | PostOk d \<Rightarrow> (None, gw\<lparr>breaker := cb, posted := posted gw @ [(endpoint, tmo)]\<rparr>)
           | PostFail error \<Rightarrow>
               (None, gw\<lparr>breaker := cb, posted := posted gw @ [(endpoint, tmo)]\<rparr>)))"

definition settleCall :: "int \<Rightarrow> 'd attempt \<Rightarrow> gateway \<Rightarrow> (CustomError + 'd) \<times> gateway" where
  "settleCall fin att gw =
     (case att of
        PostOk d \<Rightarrow> (Inr d, gw\<lparr>breaker := recordSuccess fin (breaker gw)\<rparr>)
      | PostFail error \<Rightarrow>
          (Inl (mapAIEngineError error), gw\<lparr>breaker := recordFailure fin (breaker gw)\<rparr>)
      | LocalThrow \<Rightarrow>
          (Inl \<lparr> message = ''Unexpected error during analysis'',
                  statusCode = 500, code = ''ANALYSIS_FAILED'', details = NoDetails \<rparr>,
           gw\<lparr>breaker := recordFailure fin (breaker gw)\<rparr>))"

definition analyzeImage ::
  "int \<Rightarrow> int \<Rightarrow> 'd attempt \<Rightarrow> gateway \<Rightarrow> (CustomError + 'd) \<times> gateway" where
  "analyzeImage = engineCall ''/analyze/image'' AI_ENGINE_TIMEOUT"

definition analyzeVideo ::
  "int \<Rightarrow> int \<Rightarrow> 'd attempt \<Rightarrow> gateway \<Rightarrow> (CustomError + 'd) \<times> gateway" where
  "analyzeVideo = engineCall ''/analyze/video'' (AI_ENGINE_TIMEOUT * 2)"

definition getCircuitBreakerStatus :: "gateway \<Rightarrow> cbState \<times> nat \<times> int" where
  "getCircuitBreakerStatus gw =
     (state (breaker gw), failures (breaker gw), lastFailureTime (breaker gw))"

subsection \<open>Sequences of gateway calls\<close>

text \<open>
  \<^verbatim>\<open>contentType: 'image' | 'video'\<close> selects the gateway function, as
  \<^verbatim>\<open>startAnalysis\<close> does through the two processing functions. A call is described by
  its content type, the two clock readings and what the attempt meets; calls are taken one
  after the other, each running to its end before the next starts.
\<close>

datatype contentType = Image | Video

record 'd call =
  c_kind :: contentType
  c_now :: int
  c_fin :: int
  c_attempt :: "'d attempt"

definition analyze :: "'d call \<Rightarrow> gateway \<Rightarrow> (CustomError + 'd) \<times> gateway" where
  "analyze c gw =
     (case c_kind c of
        Image \<Rightarrow> analyzeImage (c_now c) (c_fin c) (c_attempt c) gw
      | Video \<Rightarrow> analyzeVideo (c_now c) (c_fin c) (c_attempt c) gw)"

fun runCalls :: "'d call list \<Rightarrow> gateway \<Rightarrow> gateway" where
  "runCalls [] gw = gw"
| "runCalls (c # cs) gw = runCalls cs (snd (analyze c gw))"

text \<open>
  An attempt succeeds only when the request is answered with a payload; a connection
  refused, a timeout, an error response of any status and a local exception all fail.
\<close>

definition succeeded :: "'d attempt \<Rightarrow> bool" where
  "succeeded att = (case att of PostOk _ \<Rightarrow> True | _ \<Rightarrow> False)"

text \<open>The error object \<^verbatim>\<open>checkCircuitBreaker\<close> throws, by its \<^verbatim>\<open>retryAfter\<close> value.\<close>

definition unavailable :: "int \<Rightarrow> CustomError" where
  "unavailable secs =
     \<lparr> message = ''AI Engine is temporarily unavailable. Please try again later.'',
       statusCode = 503, code = ''AI_ENGINE_UNAVAILABLE'', details = RetryAfter secs \<rparr>"

definition retryAfter :: "int \<Rightarrow> int \<Rightarrow> int" where
  "retryAfter now lastFailure = - ((- (CIRCUIT_BREAKER_TIMEOUT - (now - lastFailure))) div 1000)"

text \<open>
  The breaker leaves CLOSED only through \<^verbatim>\<open>recordFailure\<close> at the threshold, and the
  counter is reset only on the way back to CLOSED.
\<close>

definition breaker_inv :: "CircuitBreakerState \<Rightarrow> bool" where
  "breaker_inv cb = (state cb = CLOSED \<or> CIRCUIT_BREAKER_THRESHOLD \<le> failures cb)"

text \<open>Inputs used in the examples: an HTTP 400 answer and a refused connection.\<close>

definition badRequest :: AxiosError where
  "badRequest = \<lparr> ax_code = Some ''ERR_BAD_REQUEST'',
                  ax_response = Some (400, Text ''Unsupported image format''),
                  ax_message = ''Request failed with status code 400'' \<rparr>"

definition refused :: AxiosError where
  "refused = \<lparr> ax_code = Some ''ECONNREFUSED'', ax_response = None,
               ax_message = ''connect ECONNREFUSED 127.0.0.1:8000'' \<rparr>"

definition refusedAt :: "int \<Rightarrow> unit call" where
  "refusedAt t = \<lparr> c_kind = Image, c_now = t, c_fin = t + 5, c_attempt = PostFail refused \<rparr>"

definition answeredAt :: "int \<Rightarrow> unit call" where
  "answeredAt t = \<lparr> c_kind = Video, c_now = t, c_fin = t + 900, c_attempt = PostOk () \<rparr>"

definition fiveRefused :: "unit call list" where
  "fiveRefused = [refusedAt 0, refusedAt 100, refusedAt 200, refusedAt 300, refusedAt 400]"

text \<open>
  Two overlapping image calls after the cool-down of the breaker that \<open>fiveRefused\<close>
  opened: the first half of the trial call at 70000, then the first half of a second call
  at 70010 whose request meets \<open>att\<close>.
\<close>

definition trialBegun :: "CustomError option \<times> gateway" where
  "trialBegun =
     beginCall ''/analyze/image'' AI_ENGINE_TIMEOUT 70000 70000 (PostOk ())
       (runCalls fiveRefused gateway0)"

definition secondBegun :: "unit attempt \<Rightarrow> CustomError option \<times> gateway" where
  "secondBegun att = beginCall ''/analyze/image'' AI_ENGINE_TIMEOUT 70010 70010 att (snd trialBegun)"

section \<open>Analysis records and the status store\<close>

text \<open>
  \<^verbatim>\<open>models/Analysis.ts\<close>. The status of an \<^verbatim>\<open>IAnalysis\<close> document is one of the three
  string literals \<^verbatim>\<open>'processing' | 'completed' | 'failed'\<close> (the schema's enum, with
  default \<^verbatim>\<open>'processing'\<close>).
\<close>

datatype sourceType = Upload | Url | Screenshot

datatype status = Processing | Completed | Failed

definition status_literal :: "status \<Rightarrow> string" where
  "status_literal s =
     (case s of Processing \<Rightarrow> ''processing'' | Completed \<Rightarrow> ''completed'' | Failed \<Rightarrow> ''failed'')"

record DeepfakeFace =
  boundingBox :: "real list"
  faceConfidence :: real

record DeepfakeDetection =
  facesDetected :: nat
  deepfakeFaces :: "DeepfakeFace list"

text \<open>The free-form \<^verbatim>\<open>exif\<close> object of the metadata is left out.\<close>

record Metadata =
  compressionScore :: real
  ganDetected :: bool
  ganConfidence :: real

record VideoTimelineFrame =
  frameNumber :: nat
  timestamp :: real
  frameTruthScore :: real

text \<open>
  The processing functions build the \<^verbatim>\<open>result\<close> from the untyped payload of the AI
  Engine, so any property may be \<^verbatim>\<open>undefined\<close>: every field is optional. A number that
  is \<^verbatim>\<open>NaN\<close> is not told apart from \<^verbatim>\<open>undefined\<close>.
\<close>

record AnalysisResult =
  truthScore :: "real option"
  aiGeneratedProbability :: "real option"
  realProbability :: "real option"
  deepfakeDetection :: "DeepfakeDetection option"
  manipulationHeatmap :: "string option"
  metadata :: "Metadata option"
  predictedSource :: "string option"
  processingTime :: "real option"
  videoTimeline :: "VideoTimelineFrame list option"

text \<open>
  The payload of a successful answer (\<^verbatim>\<open>response.data\<close>) as the processing functions
  read it; its properties carry the prefix \<open>e_\<close>. A payload that is not an object (a
  string, a number) has none of the properties. A null payload is \<open>None\<close> where the
  payload is passed on: reading a property of it throws.
\<close>

record EngineData =
  e_truthScore :: "real option"
  e_aiGeneratedProbability :: "real option"
  e_realProbability :: "real option"
  e_deepfakeDetection :: "DeepfakeDetection option"
  e_manipulationHeatmap :: "string option"
  e_metadata :: "Metadata option"
  e_predictedSource :: "string option"
  e_processingTime :: "real option"
  e_frameAnalyses :: "VideoTimelineFrame list option"

text \<open>\<^verbatim>\<open>services/analysisService.ts\<close>: \<^verbatim>\<open>CreateAnalysisParams\<close>; the document extends it.\<close>

record CreateAnalysisParams =
  userId :: "string option"
  contentType :: contentType
  sourceType :: sourceType
  sourceUrl :: "string option"
  filePath :: string
  thumbnail :: string

record IAnalysis = CreateAnalysisParams +
  status :: status
  result :: "AnalysisResult option"
  error :: "string option"
  createdAt :: int
  completedAt :: "int option"
  expiresAt :: int

text \<open>\<^verbatim>\<open>UpdateAnalysisParams\<close>: each property optional; the prefix \<open>set_\<close> names them.\<close>

record UpdateAnalysisParams =
  set_status :: "status option"
  set_result :: "AnalysisResult option"
  set_error :: "string option"
  set_completedAt :: "int option"

definition DEFAULT_TTL_DAYS :: int where
  "DEFAULT_TTL_DAYS = 30"

text \<open>
  The collection is a map from document identifiers to documents. A database operation
  either goes through or throws (a validation failure, a lost connection); which of the
  two is decided outside this code and is an argument of the model.
\<close>

datatype dbOutcome = DbApplied | DbThrew string

text \<open>
  \<^verbatim>\<open>createAnalysis\<close>: the new document has the parameters, status
  \<^verbatim>\<open>'processing'\<close>, no result and no error; \<^verbatim>\<open>createdAt\<close> is the schema's default
  \<^verbatim>\<open>Date.now\<close>. \<open>newId\<close> is the identifier the driver generates, \<open>now\<close> the clock
  (one reading for both dates); thirty calendar days are counted as 30 times 86400000 ms.
\<close>

definition createAnalysis ::
  "dbOutcome \<Rightarrow> string \<Rightarrow> int \<Rightarrow> CreateAnalysisParams \<Rightarrow> (string \<rightharpoonup> IAnalysis)
     \<Rightarrow> CustomError + (string \<times> IAnalysis) \<times> (string \<rightharpoonup> IAnalysis)" where
  "createAnalysis db newId now params coll =
     (case db of
        DbThrew m \<Rightarrow>
          Inl \<lparr> message = ''Failed to create analysis record'', statusCode = 500,
                code = ''DATABASE_ERROR'', details = ErrorText m \<rparr>
      | DbApplied \<Rightarrow>
          (let analysis =
             \<lparr> userId = userId params, contentType = contentType params,
               sourceType = sourceType params, sourceUrl = sourceUrl params,
               filePath = filePath params, thumbnail = thumbnail params,
               status = Processing, result = None, error = None,
               createdAt = now, completedAt = None,
               expiresAt = now + DEFAULT_TTL_DAYS * 86400000 \<rparr>
           in Inr ((newId, analysis), coll(newId \<mapsto> analysis))))"

definition findAnalysisById ::
  "dbOutcome \<Rightarrow> string \<Rightarrow> (string \<rightharpoonup> IAnalysis) \<Rightarrow> CustomError + IAnalysis option" where
  "findAnalysisById db analysisId coll =
     (case db of
        DbThrew m \<Rightarrow>
          Inl \<lparr> message = ''Failed to retrieve analysis'', statusCode = 500,
                code = ''DATABASE_ERROR'', details = ErrorText m \<rparr>
      | DbApplied \<Rightarrow> Inr (coll analysisId))"

text \<open>\<^verbatim>\<open>{ $set: updates }\<close>: the properties present in the update replace the document's.\<close>

definition applySet :: "UpdateAnalysisParams \<Rightarrow> IAnalysis \<Rightarrow> IAnalysis" where
  "applySet updates doc =
     doc\<lparr> status := (case set_status updates of None \<Rightarrow> status doc | Some v \<Rightarrow> v),
          result := (case set_result updates of None \<Rightarrow> result doc | Some v \<Rightarrow> Some v),
          error := (case set_error updates of None \<Rightarrow> error doc | Some v \<Rightarrow> Some v),
          completedAt := (case set_completedAt updates of None \<Rightarrow> completedAt doc | Some v \<Rightarrow> Some v) \<rparr>"

text \<open>
  \<^verbatim>\<open>updateAnalysis\<close>: \<^verbatim>\<open>findByIdAndUpdate\<close> throws (wrapped as
  \<^verbatim>\<open>DATABASE_ERROR\<close>), finds no document (\<^verbatim>\<open>NOT_FOUND\<close>, rethrown as it is), or
  applies the update.
\<close>

definition updateAnalysis ::
  "dbOutcome \<Rightarrow> string \<Rightarrow> UpdateAnalysisParams \<Rightarrow> (string \<rightharpoonup> IAnalysis)
     \<Rightarrow> CustomError + (string \<rightharpoonup> IAnalysis)" where
  "updateAnalysis db analysisId updates coll =
     (case db of
        DbThrew m \<Rightarrow>
          Inl \<lparr> message = ''Failed to update analysis'', statusCode = 500,
                code = ''DATABASE_ERROR'', details = ErrorText m \<rparr>
      | DbApplied \<Rightarrow>
          (case coll analysisId of
             None \<Rightarrow>
               Inl \<lparr> message = ''Analysis not found'', statusCode = 404,
                     code = ''NOT_FOUND'', details = AnalysisId analysisId \<rparr>
           | Some doc \<Rightarrow> Inr (coll(analysisId \<mapsto> applySet updates doc))))"

section \<open>The analysis processor\<close>

text \<open>
  \<^verbatim>\<open>services/analysisProcessor.ts\<close>. The backend state a processing task touches: the
  gateway, the collection, and the files in the upload directory.
\<close>

record backend =
  engine :: gateway
  analyses :: "string \<rightharpoonup> IAnalysis"
  uploads :: "string set"

text \<open>
  What one task meets: the clock readings and the attempt of its gateway call, the clock
  and the database outcome of the update in the \<^verbatim>\<open>try\<close> block and of the update in the
  \<^verbatim>\<open>catch\<close> block, and whether \<^verbatim>\<open>fs.unlink\<close> removes the file.
\<close>

record taskEnv =
  t_check :: int
  t_record :: int
  outcome :: "EngineData option attempt"
  t_completed :: int
  db_completed :: dbOutcome
  t_failed :: int
  db_failed :: dbOutcome
  unlinked :: bool

text \<open>\<^verbatim>\<open>utils/fileCleanup.ts\<close>, \<^verbatim>\<open>deleteFile\<close>: a failing unlink is logged or ignored.\<close>

definition deleteFile :: "bool \<Rightarrow> string \<Rightarrow> string set \<Rightarrow> string set" where
  "deleteFile removed path files = (if removed then files - {path} else files)"

text \<open>JavaScript's \<^verbatim>\<open>a || b\<close> on an optional number: 0 is falsy too.\<close>

definition or_number :: "real option \<Rightarrow> real option \<Rightarrow> real option" where
  "or_number a b = (case a of None \<Rightarrow> b | Some x \<Rightarrow> if x = 0 then b else Some x)"

definition imageResult :: "EngineData \<Rightarrow> AnalysisResult" where
  "imageResult r =
     \<lparr> truthScore = e_truthScore r,
       aiGeneratedProbability = e_aiGeneratedProbability r,
       realProbability = e_realProbability r,
       deepfakeDetection = e_deepfakeDetection r,
       manipulationHeatmap = e_manipulationHeatmap r,
       metadata = e_metadata r,
       predictedSource = e_predictedSource r,
       processingTime = e_processingTime r,
       videoTimeline = None \<rparr>"

definition videoResult :: "EngineData \<Rightarrow> AnalysisResult" where
  "videoResult r =
     \<lparr> truthScore = e_truthScore r,
       aiGeneratedProbability =
         or_number (e_aiGeneratedProbability r) (map_option (\<lambda>t. 100 - t) (e_truthScore r)),
       realProbability = e_truthScore r,
       deepfakeDetection = e_deepfakeDetection r,
       manipulationHeatmap = None,
       metadata = e_metadata r,
       predictedSource = Some (or_string (e_predictedSource r) ''Unknown''),
       processingTime = e_processingTime r,
       videoTimeline = e_frameAnalyses r \<rparr>"

text \<open>
  What the \<^verbatim>\<open>catch\<close> block of a processing function can catch: a \<^verbatim>\<open>CustomError\<close>
  (every error of the gateway and of the status store is one), or the \<^verbatim>\<open>TypeError\<close> the
  runtime raises when \<^verbatim>\<open>result.truthScore\<close> is read from a null payload.
\<close>

datatype thrown = Custom CustomError | TypeError string

fun thrownMessage :: "thrown \<Rightarrow> string" where
  "thrownMessage (Custom e) = message e"
| "thrownMessage (TypeError m) = m"

text \<open>The text of that \<^verbatim>\<open>TypeError\<close> in Node.js 18 and later, which the README asks for.\<close>

definition nullReadMessage :: string where
  "nullReadMessage = ''Cannot read properties of null (reading 'truthScore')''"

text \<open>
  The \<^verbatim>\<open>catch\<close> block of both processing functions: the caught error's \<^verbatim>\<open>message\<close> is
  written to the document's \<^verbatim>\<open>error\<close>. An error thrown by this update leaves the
  function (the first component of the result).
\<close>

definition persistFailure ::
  "taskEnv \<Rightarrow> string \<Rightarrow> thrown \<Rightarrow> backend \<Rightarrow> CustomError option \<times> backend" where
  "persistFailure env analysisId caught w =
     (case updateAnalysis (db_failed env) analysisId
             \<lparr> set_status = Some Failed, set_result = None,
               set_error = Some (thrownMessage caught), set_completedAt = Some (t_failed env) \<rparr>
             (analyses w) of
        Inl e \<Rightarrow> (Some e, w)
      | Inr coll \<Rightarrow> (None, w\<lparr>analyses := coll\<rparr>))"

text \<open>The update of the \<^verbatim>\<open>try\<close> block; what it throws goes to the \<^verbatim>\<open>catch\<close> block.\<close>

definition persistResult ::
  "taskEnv \<Rightarrow> string \<Rightarrow> AnalysisResult \<Rightarrow> backend \<Rightarrow> (thrown + unit) \<times> backend" where
  "persistResult env analysisId res w =
     (case updateAnalysis (db_completed env) analysisId
             \<lparr> set_status = Some Completed, set_result = Some res,
               set_error = None, set_completedAt = Some (t_completed env) \<rparr>
             (analyses w) of
        Inl e \<Rightarrow> (Inl (Custom e), w)
      | Inr coll \<Rightarrow> (Inr (), w\<lparr>analyses := coll\<rparr>))"

text \<open>
  The \<^verbatim>\<open>try\<close> blocks: the gateway call, the reading of the payload, the update. The
  result is what reaches the \<^verbatim>\<open>catch\<close> block, if anything.
\<close>

definition tryImageAnalysis :: "taskEnv \<Rightarrow> string \<Rightarrow> backend \<Rightarrow> (thrown + unit) \<times> backend" where
  "tryImageAnalysis env analysisId w =
     (let answer = analyzeImage (t_check env) (t_record env) (outcome env) (engine w);
          w1 = w\<lparr>engine := snd answer\<rparr>
      in case fst answer of
           Inl e \<Rightarrow> (Inl (Custom e), w1)
         | Inr None \<Rightarrow> (Inl (TypeError nullReadMessage), w1)
         | Inr (Some r) \<Rightarrow> persistResult env analysisId (imageResult r) w1)"

definition tryVideoAnalysis :: "taskEnv \<Rightarrow> string \<Rightarrow> backend \<Rightarrow> (thrown + unit) \<times> backend" where
  "tryVideoAnalysis env analysisId w =
     (let answer = analyzeVideo (t_check env) (t_record env) (outcome env) (engine w);
          w1 = w\<lparr>engine := snd answer\<rparr>
      in case fst answer of
           Inl e \<Rightarrow> (Inl (Custom e), w1)
         | Inr None \<Rightarrow> (Inl (TypeError nullReadMessage), w1)
         | Inr (Some r) \<Rightarrow> persistResult env analysisId (videoResult r) w1)"

text \<open>The \<^verbatim>\<open>finally\<close> block.\<close>

definition cleanUp ::
  "taskEnv \<Rightarrow> string \<Rightarrow> CustomError option \<times> backend \<Rightarrow> CustomError option \<times> backend" where
  "cleanUp env path rw =
     (fst rw, (snd rw)\<lparr>uploads := deleteFile (unlinked env) path (uploads (snd rw))\<rparr>)"

definition processImageAnalysis ::
  "taskEnv \<Rightarrow> string \<Rightarrow> string \<Rightarrow> backend \<Rightarrow> CustomError option \<times> backend" where
  "processImageAnalysis env analysisId path w =
     cleanUp env path
       (case fst (tryImageAnalysis env analysisId w) of
          Inl caught \<Rightarrow> persistFailure env analysisId caught (snd (tryImageAnalysis env analysisId w))
        | Inr done \<Rightarrow> (None, snd (tryImageAnalysis env analysisId w)))"

definition processVideoAnalysis ::
  "taskEnv \<Rightarrow> string \<Rightarrow> string \<Rightarrow> backend \<Rightarrow> CustomError option \<times> backend" where
  "processVideoAnalysis env analysisId path w =
     cleanUp env path
       (case fst (tryVideoAnalysis env analysisId w) of
          Inl caught \<Rightarrow> persistFailure env analysisId caught (snd (tryVideoAnalysis env analysisId w))
        | Inr done \<Rightarrow> (None, snd (tryVideoAnalysis env analysisId w)))"

text \<open>
  \<^verbatim>\<open>startAnalysis\<close> runs the function for the content type and only logs an error that
  leaves it.
\<close>

definition startAnalysis ::
  "taskEnv \<Rightarrow> string \<Rightarrow> string \<Rightarrow> contentType \<Rightarrow> backend \<Rightarrow> backend" where
  "startAnalysis env analysisId path ct w =
     (if ct = Image then snd (processImageAnalysis env analysisId path w)
      else snd (processVideoAnalysis env analysisId path w))"

subsection \<open>Submissions and their tasks\<close>

text \<open>
  The controllers (\<^verbatim>\<open>uploadImage\<close>, \<^verbatim>\<open>uploadVideo\<close>, \<^verbatim>\<open>analyzeUrl\<close>) create
  the record for a stored file and then call \<^verbatim>\<open>startAnalysis\<close> once with the record's
  identifier, the file path and the content type; the task runs later. The system state is
  the backend and the tasks started and not yet run. A submission whose record cannot be
  created starts no task; the identifier of a new record is fresh.
\<close>

record system =
  sys_backend :: backend
  pending :: "(string \<times> string \<times> contentType) list"

datatype event =
    Submit dbOutcome string int CreateAnalysisParams
  | Run taskEnv string string contentType

fun fire :: "event \<Rightarrow> system \<Rightarrow> system" where
  "fire (Submit db newId now params) s =
     (if analyses (sys_backend s) newId \<noteq> None then s
      else case createAnalysis db newId now params (analyses (sys_backend s)) of
             Inl thrown \<Rightarrow> s
           | Inr created \<Rightarrow>
               \<lparr> sys_backend = (sys_backend s)
                   \<lparr>analyses := snd created,
                    uploads := insert (filePath params) (uploads (sys_backend s))\<rparr>,
                 pending = pending s @ [(fst (fst created), filePath params, contentType params)] \<rparr>)"
| "fire (Run env analysisId path ct) s =
     (if (analysisId, path, ct) \<in> set (pending s)
      then \<lparr> sys_backend = startAnalysis env analysisId path ct (sys_backend s),
             pending = remove1 (analysisId, path, ct) (pending s) \<rparr>
      else s)"

fun runEvents :: "event list \<Rightarrow> system \<Rightarrow> system" where
  "runEvents [] s = s"
| "runEvents (ev # evs) s = runEvents evs (fire ev s)"

definition system0 :: system where
  "system0 = \<lparr> sys_backend = \<lparr> engine = gateway0, analyses = Map.empty, uploads = {} \<rparr>,
               pending = [] \<rparr>"



text \<open>The two presence conditions of a record.\<close>

definition consistent :: "IAnalysis \<Rightarrow> bool" where
  "consistent doc =
     ((result doc \<noteq> None) = (status doc = Completed) \<and> (error doc \<noteq> None) = (status doc = Failed))"

text \<open>A record as \<^verbatim>\<open>createAnalysis\<close> leaves it, not yet written by its task.\<close>

definition untouched :: "IAnalysis \<Rightarrow> bool" where
  "untouched doc = (status doc = Processing \<and> result doc = None \<and> error doc = None)"

text \<open>The status changes a record can go through in one step.\<close>

definition forward :: "status \<Rightarrow> status \<Rightarrow> bool" where
  "forward old new = (new = old \<or> (old = Processing \<and> (new = Completed \<or> new = Failed)))"

text \<open>
  The change one task can make to its record: none, or the one update of the \<^verbatim>\<open>try\<close>
  block, or the one update of the \<^verbatim>\<open>catch\<close> block.
\<close>

definition oneWrite :: "IAnalysis \<Rightarrow> IAnalysis \<Rightarrow> bool" where
  "oneWrite doc doc' =
     (doc' = doc
      \<or> (completedAt doc' \<noteq> None \<and> result doc' \<noteq> None
          \<and> doc' = doc\<lparr>status := Completed, result := result doc', completedAt := completedAt doc'\<rparr>)
      \<or> (completedAt doc' \<noteq> None \<and> error doc' \<noteq> None
          \<and> doc' = doc\<lparr>status := Failed, error := error doc', completedAt := completedAt doc'\<rparr>))"

text \<open>
  What holds of every system state: the tasks not yet run belong to distinct records, each
  still as created, and every record satisfies the presence conditions.
\<close>

definition sys_inv :: "system \<Rightarrow> bool" where
  "sys_inv s =
     (distinct (map fst (pending s))
      \<and> (\<forall>task\<in>set (pending s).
            \<exists>doc. analyses (sys_backend s) (fst task) = Some doc \<and> untouched doc)
      \<and> (\<forall>i doc. analyses (sys_backend s) i = Some doc \<longrightarrow> consistent doc))"

text \<open>The \<^verbatim>\<open>try\<close> block of the processing function \<^verbatim>\<open>startAnalysis\<close> runs.\<close>

definition tryAnalysis ::
  "taskEnv \<Rightarrow> string \<Rightarrow> contentType \<Rightarrow> backend \<Rightarrow> (thrown + unit) \<times> backend" where
  "tryAnalysis env analysisId ct w =
     (if ct = Image then tryImageAnalysis env analysisId w else tryVideoAnalysis env analysisId w)"


text \<open>
  Inputs used in the examples: an upload, an HTTP 400 answer whose body carries the AI
  Engine's own exception text, a normal answer, and the state after the upload.
\<close>

definition exampleParams :: CreateAnalysisParams where
  "exampleParams = \<lparr> userId = None, contentType = Image, sourceType = Upload, sourceUrl = None,
                      filePath = ''uploads/a1.jpg'', thumbnail = ''data:image/jpeg;base64,AAAA'' \<rparr>"

definition rawRejection :: AxiosError where
  "rawRejection = \<lparr> ax_code = Some ''ERR_BAD_REQUEST'',
      ax_response = Some (400, Text ''PIL.UnidentifiedImageError: cannot identify image file /tmp/tmpk3x9.jpg''),
      ax_message = ''Request failed with status code 400'' \<rparr>"

definition rejectingEnv :: taskEnv where
  "rejectingEnv = \<lparr> t_check = 2000, t_record = 2300, outcome = PostFail rawRejection,
                     t_completed = 2400, db_completed = DbApplied,
                     t_failed = 2500, db_failed = DbApplied, unlinked = True \<rparr>"

definition exampleData :: EngineData where
  "exampleData = \<lparr> e_truthScore = Some 82, e_aiGeneratedProbability = Some 18,
      e_realProbability = Some 82,
      e_deepfakeDetection = Some \<lparr> facesDetected = 0, deepfakeFaces = [] \<rparr>,
      e_manipulationHeatmap = None,
      e_metadata = Some \<lparr> compressionScore = 70, ganDetected = False, ganConfidence = 0 \<rparr>,
      e_predictedSource = Some ''Unknown'', e_processingTime = Some 1.5,
      e_frameAnalyses = None \<rparr>"

definition answeringEnv :: taskEnv where
  "answeringEnv = \<lparr> t_check = 2000, t_record = 2300, outcome = PostOk (Some exampleData),
                     t_completed = 2400, db_completed = DbApplied,
                     t_failed = 2500, db_failed = DbApplied, unlinked = True \<rparr>"

definition storeFailingEnv :: taskEnv where
  "storeFailingEnv = \<lparr> t_check = 2000, t_record = 2300, outcome = PostOk (Some exampleData),
                     t_completed = 2400, db_completed = DbThrew ''Validation failed'',
                     t_failed = 2500, db_failed = DbApplied, unlinked = True \<rparr>"

definition objectRejection :: AxiosError where
  "objectRejection = \<lparr> ax_code = Some ''ERR_BAD_REQUEST'',
      ax_response = Some (400, NonString ''[object Object]''),
      ax_message = ''Request failed with status code 400'' \<rparr>"

definition objectEnv :: taskEnv where
  "objectEnv = \<lparr> t_check = 2000, t_record = 2300, outcome = PostFail objectRejection,
                     t_completed = 2400, db_completed = DbApplied,
                     t_failed = 2500, db_failed = DbApplied, unlinked = True \<rparr>"

definition nullPayloadEnv :: taskEnv where
  "nullPayloadEnv = \<lparr> t_check = 2000, t_record = 2300, outcome = PostOk None,
                     t_completed = 2400, db_completed = DbApplied,
                     t_failed = 2500, db_failed = DbApplied, unlinked = True \<rparr>"

definition storeDownEnv :: taskEnv where
  "storeDownEnv = \<lparr> t_check = 2000, t_record = 2300, outcome = PostFail refused,
                     t_completed = 2400, db_completed = DbThrew ''connection lost'',
                     t_failed = 2500, db_failed = DbThrew ''connection lost'', unlinked = True \<rparr>"

definition submitted :: system where
  "submitted = runEvents [Submit DbApplied ''a1'' 1000 exampleParams] system0"

definition exampleDoc :: IAnalysis where
  "exampleDoc = \<lparr> userId = None, contentType = Image, sourceType = Upload, sourceUrl = None,
      filePath = ''uploads/a1.jpg'', thumbnail = ''data:image/jpeg;base64,AAAA'',
      status = Processing, result = None, error = None, createdAt = 1000,
      completedAt = None, expiresAt = 2592001000 \<rparr>"

section \<open>Score aggregation and the video timeline\<close>

text \<open>
  The sources of the AI Engine, which computes the Truth Score and reduces the frames of a
  video, are not among the files; this section follows the specification instead. Scores
  and confidences are real numbers.
\<close>

text \<open>Modelled from the spec: the identifiers of the detection models (the AI Engine's
  own type is missing).\<close>

datatype modelId = Classifier | Deepfake | GanFingerprint | Forgery | Compression

text \<open>Modelled from the spec: one detector's output (the AI Engine's own type is
  missing).\<close>

record PerModelOutput =
  modelId :: modelId
  score :: real
  confidence :: real

text \<open>Modelled from the spec: the fixed base weights of the Score Aggregator (the AI
  Engine's table is missing): classifier 0.30, deepfake 0.25, ganFingerprint 0.20, forgery
  0.15, compression 0.10.\<close>

fun baseWeight :: "modelId \<Rightarrow> real" where
  "baseWeight Classifier = 30 / 100"
| "baseWeight Deepfake = 25 / 100"
| "baseWeight GanFingerprint = 20 / 100"
| "baseWeight Forgery = 15 / 100"
| "baseWeight Compression = 10 / 100"

text \<open>Modelled from the spec: \<^verbatim>\<open>effectiveWeight_i = baseWeight_i * confidence_i\<close> (the
  AI Engine's aggregation function is missing).\<close>

definition effectiveWeight :: "PerModelOutput \<Rightarrow> real" where
  "effectiveWeight p = baseWeight (modelId p) * confidence p"

text \<open>Modelled from the spec: \<^verbatim>\<open>denom\<close>, the sum of the effective weights (the AI
  Engine's aggregation function is missing).\<close>

definition denom :: "PerModelOutput list \<Rightarrow> real" where
  "denom ps = (\<Sum>p\<leftarrow>ps. effectiveWeight p)"

text \<open>Modelled from the spec: the result is clamped to \<open>[0, 100]\<close> (the AI Engine's
  aggregation function is missing).\<close>

definition clamp :: "int \<Rightarrow> int" where
  "clamp x = max 0 (min 100 x)"

text \<open>Modelled from the spec: the Score Aggregator (the AI Engine's aggregation function
  is missing),
  \<^verbatim>\<open>truthScore = denom > 0 ? round(100 * sum(effectiveWeight_i * score_i) / denom) : 50\<close>.
  \<^verbatim>\<open>round\<close> is rounding to the nearest integer, a half going up.\<close>

definition aggregate :: "PerModelOutput list \<Rightarrow> int" where
  "aggregate ps =
     (if denom ps > 0
      then clamp (round (100 * (\<Sum>p\<leftarrow>ps. effectiveWeight p * score p) / denom ps))
      else 50)"

text \<open>Modelled from the spec: an entry of the timeline of a video result (the AI
  Engine's own type is missing).\<close>

record TimelineEntry =
  frameIndex :: nat
  timestampSec :: real
  frameScore :: int
  suspicious :: bool

text \<open>Modelled from the spec: a frame with its \<^verbatim>\<open>frameScore\<close> is marked
  \<^verbatim>\<open>suspicious = frameScore < 50\<close> (the AI Engine's video reducer is missing).\<close>

definition timelineEntry :: "nat \<Rightarrow> real \<times> int \<Rightarrow> TimelineEntry" where
  "timelineEntry k f =
     \<lparr> frameIndex = k, timestampSec = fst f, frameScore = snd f, suspicious = (snd f < 50) \<rparr>"

text \<open>Modelled from the spec: the unweighted arithmetic mean of the frame scores (the AI
  Engine's video reducer is missing). The mean is kept exact, not rounded.\<close>

definition meanScore :: "int list \<Rightarrow> real" where
  "meanScore xs = real_of_int (sum_list xs) / real (length xs)"

text \<open>Modelled from the spec: the Video Timeline Reducer on frames already scored, each
  with its timestamp (the AI Engine's video reducer is missing).\<close>

definition reduceScores :: "(real \<times> int) list \<Rightarrow> TimelineEntry list \<times> real" where
  "reduceScores fs =
     (map (\<lambda>kf. timelineEntry (fst kf) (snd kf)) (enumerate 0 fs), meanScore (map snd fs))"

text \<open>Modelled from the spec: the Video Timeline Reducer (the AI Engine's video reducer
  is missing). Each extracted frame, a timestamp with the detectors' outputs, is scored by
  the aggregator; when no frame was extracted the whole video, with outputs \<open>whole\<close>, is
  one frame at timestamp 0.\<close>

definition reduceVideo ::
  "PerModelOutput list \<Rightarrow> (real \<times> PerModelOutput list) list \<Rightarrow> TimelineEntry list \<times> real" where
  "reduceVideo whole frames =
     (let fs = (if frames = [] then [(0, whole)] else frames)
      in reduceScores (map (\<lambda>f. (fst f, aggregate (snd f))) fs))"

text \<open>Inputs used in the examples.\<close>

definition scenarioOutputs :: "PerModelOutput list" where
  "scenarioOutputs =
     [\<lparr> modelId = Classifier, score = 9 / 10, confidence = 1 \<rparr>,
      \<lparr> modelId = Deepfake, score = 1, confidence = 1 \<rparr>,
      \<lparr> modelId = GanFingerprint, score = 8 / 10, confidence = 5 / 10 \<rparr>,
      \<lparr> modelId = Forgery, score = 95 / 100, confidence = 1 \<rparr>,
      \<lparr> modelId = Compression, score = 7 / 10, confidence = 1 \<rparr>]"

definition scenarioFrames :: "(real \<times> PerModelOutput list) list" where
  "scenarioFrames =
     [(0, [\<lparr> modelId = Classifier, score = 8 / 10, confidence = 1 \<rparr>]),
      (1, [\<lparr> modelId = Classifier, score = 4 / 10, confidence = 1 \<rparr>]),
      (2, [\<lparr> modelId = Classifier, score = 9 / 10, confidence = 1 \<rparr>])]"

definition degraded :: "PerModelOutput list" where
  "degraded =
     [\<lparr> modelId = Classifier, score = 5 / 10, confidence = 0 \<rparr>,
      \<lparr> modelId = Forgery, score = 5 / 10, confidence = 0 \<rparr>]"

definition twoModels :: "PerModelOutput list" where
  "twoModels =
     [\<lparr> modelId = Classifier, score = 1 / 4, confidence = 1 \<rparr>,
      \<lparr> modelId = Compression, score = 1, confidence = 1 / 2 \<rparr>]"

section \<open>Properties of the circuit breaker\<close>

lemma recordFailure_fields:
  "failures (recordFailure fin cb) = failures cb + 1"
  "lastFailureTime (recordFailure fin cb) = fin"
  "state (recordFailure fin cb) = (if failures cb + 1 \<ge> 5 then OPEN else state cb)"
  by (simp_all add: recordFailure_def Let_def CIRCUIT_BREAKER_THRESHOLD_def)

lemma checkCircuitBreaker_keeps:
  "checkCircuitBreaker now cb = Inr cb' \<Longrightarrow>
     failures cb' = failures cb \<and> lastFailureTime cb' = lastFailureTime cb"
  by (auto simp: checkCircuitBreaker_def split: if_splits)

lemma engineCall_failure:
  "fst (engineCall ep tmo now fin att gw) = Inl e \<Longrightarrow>
     failures (breaker (snd (engineCall ep tmo now fin att gw))) = failures (breaker gw) + 1
   \<and> lastFailureTime (breaker (snd (engineCall ep tmo now fin att gw))) = fin"
  by (auto simp: engineCall_def recordFailure_fields split: sum.splits attempt.splits
      dest: checkCircuitBreaker_keeps)

lemma engineCall_success:
  "fst (engineCall ep tmo now fin att gw) = Inr d \<Longrightarrow>
     failures (breaker (snd (engineCall ep tmo now fin att gw))) \<le> failures (breaker gw)"
  by (auto simp: engineCall_def recordSuccess_def split: sum.splits attempt.splits if_splits
      dest: checkCircuitBreaker_keeps)

lemma engineCall_not_succeeded:
  "\<not> succeeded att \<Longrightarrow> \<exists>e. fst (engineCall ep tmo now fin att gw) = Inl e"
  by (auto simp: engineCall_def succeeded_def split: sum.splits attempt.splits)

lemma analyze_engineCall:
  "\<exists>ep tmo. analyze c gw = engineCall ep tmo (c_now c) (c_fin c) (c_attempt c) gw"
  by (cases "c_kind c") (auto simp: analyze_def analyzeImage_def analyzeVideo_def)

lemma analyze_failure:
  assumes "fst (analyze c gw) = Inl e"
  shows "failures (breaker (snd (analyze c gw))) = failures (breaker gw) + 1"
    and "lastFailureTime (breaker (snd (analyze c gw))) = c_fin c"
  using assms analyze_engineCall[of c gw] engineCall_failure by metis+

lemma analyze_success:
  assumes "fst (analyze c gw) = Inr d"
  shows "failures (breaker (snd (analyze c gw))) \<le> failures (breaker gw)"
  using assms analyze_engineCall[of c gw] engineCall_success by metis

lemma analyze_not_succeeded:
  "\<not> succeeded (c_attempt c) \<Longrightarrow> \<exists>e. fst (analyze c gw) = Inl e"
  using analyze_engineCall[of c gw] engineCall_not_succeeded by metis

lemma engineCall_failed_state:
  "fst (engineCall ep tmo now fin att gw) = Inl e \<Longrightarrow>
     5 \<le> failures (breaker gw) + 1 \<Longrightarrow>
     state (breaker (snd (engineCall ep tmo now fin att gw))) = OPEN"
  by (auto simp: engineCall_def recordFailure_fields split: sum.splits attempt.splits
      dest: checkCircuitBreaker_keeps)

lemma analyze_failed_state:
  "fst (analyze c gw) = Inl e \<Longrightarrow> 5 \<le> failures (breaker gw) + 1 \<Longrightarrow>
     state (breaker (snd (analyze c gw))) = OPEN"
  using analyze_engineCall[of c gw] engineCall_failed_state by metis

lemma runCalls_failures:
  "\<forall>c\<in>set cs. \<not> succeeded (c_attempt c) \<Longrightarrow>
     failures (breaker (runCalls cs gw)) = failures (breaker gw) + length cs"
proof (induction cs arbitrary: gw)
  case Nil
  then show ?case by simp
next
  case (Cons c cs)
  then obtain e where "fst (analyze c gw) = Inl e"
    using analyze_not_succeeded[of c gw] by auto
  then have "failures (breaker (snd (analyze c gw))) = failures (breaker gw) + 1"
    by (rule analyze_failure)
  with Cons show ?case by simp
qed

lemma runCalls_snoc: "runCalls (cs @ [c]) gw = snd (analyze c (runCalls cs gw))"
  by (induction cs arbitrary: gw) simp_all

lemma runCalls_failed_last:
  assumes "cs \<noteq> []" and "\<forall>c\<in>set cs. \<not> succeeded (c_attempt c)" and "5 \<le> length cs"
  shows "state (breaker (runCalls cs gw)) = OPEN"
    and "lastFailureTime (breaker (runCalls cs gw)) = c_fin (last cs)"
proof -
  from assms(1) obtain bs c where cs: "cs = bs @ [c]"
    by (metis rev_exhaust)
  let ?g = "runCalls bs gw"
  have bs: "\<forall>c\<in>set bs. \<not> succeeded (c_attempt c)" and c: "\<not> succeeded (c_attempt c)"
    using assms(2) cs by auto
  obtain e where e: "fst (analyze c ?g) = Inl e"
    using analyze_not_succeeded[OF c, of ?g] by auto
  have "failures (breaker ?g) = failures (breaker gw) + length bs"
    using runCalls_failures[OF bs] .
  then have "5 \<le> failures (breaker ?g) + 1"
    using assms(3) cs by simp
  then show "state (breaker (runCalls cs gw)) = OPEN"
    using analyze_failed_state[OF e] by (simp add: cs runCalls_snoc)
  show "lastFailureTime (breaker (runCalls cs gw)) = c_fin (last cs)"
    using analyze_failure(2)[OF e] by (simp add: cs runCalls_snoc)
qed

lemma engineCall_rejected:
  assumes "state (breaker gw) = OPEN"
    and "now - lastFailureTime (breaker gw) \<le> CIRCUIT_BREAKER_TIMEOUT"
  shows "engineCall ep tmo now fin att gw =
     (Inl (unavailable (retryAfter now (lastFailureTime (breaker gw)))),
      gw\<lparr>breaker := \<lparr> failures = failures (breaker gw) + 1, lastFailureTime = fin, state = OPEN \<rparr>\<rparr>)"
  using assms
  by (simp add: engineCall_def checkCircuitBreaker_def unavailable_def retryAfter_def
      recordFailure_def Let_def)

lemma analyze_rejected:
  assumes "state (breaker gw) = OPEN"
    and "c_now c - lastFailureTime (breaker gw) \<le> CIRCUIT_BREAKER_TIMEOUT"
  shows "analyze c gw =
     (Inl (unavailable (retryAfter (c_now c) (lastFailureTime (breaker gw)))),
      gw\<lparr>breaker := \<lparr> failures = failures (breaker gw) + 1, lastFailureTime = c_fin c, state = OPEN \<rparr>\<rparr>)"
  using assms
  by (cases "c_kind c") (simp_all add: analyze_def analyzeImage_def analyzeVideo_def engineCall_rejected)

lemma engineCall_inv:
  "breaker_inv (breaker gw) \<Longrightarrow> breaker_inv (breaker (snd (engineCall ep tmo now fin att gw)))"
  by (auto simp: breaker_inv_def engineCall_def checkCircuitBreaker_def recordFailure_def
      recordSuccess_def Let_def CIRCUIT_BREAKER_THRESHOLD_def split: attempt.splits if_splits)

lemma analyze_inv:
  "breaker_inv (breaker gw) \<Longrightarrow> breaker_inv (breaker (snd (analyze c gw)))"
  using analyze_engineCall[of c gw] engineCall_inv by metis

lemma runCalls_inv:
  "breaker_inv (breaker gw) \<Longrightarrow> breaker_inv (breaker (runCalls cs gw))"
  by (induction cs arbitrary: gw) (simp_all add: analyze_inv)

lemma gateway0_inv: "breaker_inv (breaker gateway0)"
  by (simp add: breaker_inv_def gateway0_def circuitBreaker_def)

lemma engineCall_trial_ok:
  assumes "state (breaker gw) = OPEN"
    and "now - lastFailureTime (breaker gw) > CIRCUIT_BREAKER_TIMEOUT"
  shows "engineCall ep tmo now fin (PostOk d) gw =
     (Inr d, \<lparr> breaker = (breaker gw)\<lparr>state := CLOSED, failures := 0\<rparr>,
               posted = posted gw @ [(ep, tmo)] \<rparr>)"
  using assms by (simp add: engineCall_def checkCircuitBreaker_def recordSuccess_def)

lemma engineCall_trial_fail:
  assumes "state (breaker gw) = OPEN"
    and "now - lastFailureTime (breaker gw) > CIRCUIT_BREAKER_TIMEOUT"
    and "breaker_inv (breaker gw)" and "\<not> succeeded att"
  shows "breaker (snd (engineCall ep tmo now fin att gw)) =
      \<lparr> failures = failures (breaker gw) + 1, lastFailureTime = fin, state = OPEN \<rparr>"
  using assms by (cases att) (simp_all add: engineCall_def checkCircuitBreaker_def
      recordFailure_def Let_def breaker_inv_def succeeded_def)

lemmas gateway_eval =
  analyze_def analyzeImage_def analyzeVideo_def engineCall_def checkCircuitBreaker_def
  recordFailure_def recordSuccess_def mapAIEngineError_def or_string_def messageOr_def gateway0_def
  circuitBreaker_def CIRCUIT_BREAKER_THRESHOLD_def CIRCUIT_BREAKER_TIMEOUT_def
  CIRCUIT_BREAKER_RESET_TIMEOUT_def AI_ENGINE_TIMEOUT_def succeeded_def unavailable_def
  retryAfter_def badRequest_def refused_def refusedAt_def answeredAt_def fiveRefused_def Let_def

lemma fiveRefused_breaker:
  "breaker (runCalls fiveRefused gateway0) = \<lparr> failures = 5, lastFailureTime = 405, state = OPEN \<rparr>"
  by (simp add: gateway_eval)

subsection \<open>Which failures the breaker counts\<close>

text \<open>
  Claim C1, as stated: a call that fails with a content-level rejection (HTTP 400,
  \<^verbatim>\<open>INVALID_CONTENT\<close>) does not increment the breaker's failure counter. The code does
  increment it: on the fresh breaker, an image call answered with status 400 is rethrown as
  \<^verbatim>\<open>INVALID_CONTENT\<close> and the counter goes from 0 to 1.
\<close>

theorem content_rejection_counted:
  "fst (analyzeImage 1000 1200 (PostFail badRequest :: unit attempt) gateway0) =
     Inl \<lparr> message = ''Unsupported image format'', statusCode = 400,
           code = ''INVALID_CONTENT'', details = Payload (Text ''Unsupported image format'') \<rparr>
   \<and> failures (breaker gateway0) = 0
   \<and> failures (breaker (snd (analyzeImage 1000 1200 (PostFail badRequest :: unit attempt) gateway0))) = 1"
  by (simp add: gateway_eval)

text \<open>
  Claim C1, amended: every call to \<^verbatim>\<open>analyzeImage\<close> or \<^verbatim>\<open>analyzeVideo\<close> that ends
  in an error, whatever its kind (content-level rejection, infrastructure failure,
  fail-fast rejection by the open breaker, local exception), increments the failure counter
  by exactly one and sets \<^verbatim>\<open>lastFailureTime\<close> to the time the failure is recorded; a
  call that returns a payload never increases the counter.
\<close>

theorem every_failure_counted:
  "(fst (analyze c gw) = Inl e \<longrightarrow>
      failures (breaker (snd (analyze c gw))) = failures (breaker gw) + 1
    \<and> lastFailureTime (breaker (snd (analyze c gw))) = c_fin c)
   \<and> (fst (analyze c gw) = Inr d \<longrightarrow>
      failures (breaker (snd (analyze c gw))) \<le> failures (breaker gw))"
  using analyze_failure[of c gw e] analyze_success[of c gw d] by blast

theorem every_failure_counted_witness:
  "fst (analyze \<lparr> c_kind = Video, c_now = 1000, c_fin = 1200, c_attempt = PostFail badRequest \<rparr> gateway0)
     = Inl \<lparr> message = ''Unsupported image format'', statusCode = 400,
           code = ''INVALID_CONTENT'', details = Payload (Text ''Unsupported image format'') \<rparr>
   \<and> failures (breaker (snd (analyze \<lparr> c_kind = Video, c_now = 1000, c_fin = 1200,
         c_attempt = PostFail badRequest :: unit attempt \<rparr> gateway0))) = 1
   \<and> fst (analyze (answeredAt 7) gateway0) = Inr ()
   \<and> failures (breaker (snd (analyze (answeredAt 7) gateway0))) \<le> 0"
  using every_failure_counted[of "\<lparr> c_kind = Video, c_now = 1000, c_fin = 1200, c_attempt = PostFail badRequest \<rparr>"
     gateway0 "\<lparr> message = ''Unsupported image format'', statusCode = 400,
           code = ''INVALID_CONTENT'', details = Payload (Text ''Unsupported image format'') \<rparr>" "()"]
    every_failure_counted[of "answeredAt 7" gateway0 "unavailable 0" "()"]
  by (simp add: gateway_eval)

subsection \<open>Opening at the threshold\<close>

text \<open>
  Claim C5: after \<open>T = 5\<close> consecutive failing calls (in particular five infrastructure
  failures), from any breaker state, the breaker is OPEN; the next call, arriving no later
  than the cool-down \<open>W = 60000\<close> ms after the last recorded failure, is rejected with
  503 \<^verbatim>\<open>AI_ENGINE_UNAVAILABLE\<close> and no request is posted to the AI Engine.
\<close>

theorem breaker_opens_after_threshold:
  assumes "length cs = CIRCUIT_BREAKER_THRESHOLD"
    and "\<forall>c\<in>set cs. \<not> succeeded (c_attempt c)"
    and "c_now c - c_fin (last cs) \<le> CIRCUIT_BREAKER_TIMEOUT"
  shows "state (breaker (runCalls cs gw)) = OPEN
       \<and> fst (analyze c (runCalls cs gw)) = Inl (unavailable (retryAfter (c_now c) (c_fin (last cs))))
       \<and> posted (snd (analyze c (runCalls cs gw))) = posted (runCalls cs gw)"
proof -
  have ne: "cs \<noteq> []" and len: "5 \<le> length cs"
    using assms(1) by (auto simp: CIRCUIT_BREAKER_THRESHOLD_def)
  have st: "state (breaker (runCalls cs gw)) = OPEN"
    and lf: "lastFailureTime (breaker (runCalls cs gw)) = c_fin (last cs)"
    using runCalls_failed_last[OF ne assms(2) len] by auto
  have "c_now c - lastFailureTime (breaker (runCalls cs gw)) \<le> CIRCUIT_BREAKER_TIMEOUT"
    using assms(3) lf by simp
  from analyze_rejected[OF st this] st lf show ?thesis by simp
qed

theorem breaker_opens_after_threshold_witness:
  "length fiveRefused = CIRCUIT_BREAKER_THRESHOLD
   \<and> list_all (\<lambda>c. \<not> succeeded (c_attempt c)) fiveRefused
   \<and> c_now (answeredAt 60405) - c_fin (last fiveRefused) \<le> CIRCUIT_BREAKER_TIMEOUT
   \<and> state (breaker (runCalls fiveRefused gateway0)) = OPEN
   \<and> fst (analyze (answeredAt 60405) (runCalls fiveRefused gateway0)) = Inl (unavailable 0)
   \<and> posted (snd (analyze (answeredAt 60405) (runCalls fiveRefused gateway0)))
       = posted (runCalls fiveRefused gateway0)"
  using breaker_opens_after_threshold[of fiveRefused "answeredAt 60405" gateway0]
  by (simp add: CIRCUIT_BREAKER_THRESHOLD_def CIRCUIT_BREAKER_TIMEOUT_def succeeded_def
      refusedAt_def answeredAt_def retryAfter_def fiveRefused_def)

subsection \<open>The trial call after the cool-down\<close>

text \<open>
  A call of the gateway that no other call overlaps is the first half followed at once by
  the second.
\<close>

lemma engineCall_split:
  "engineCall ep tmo now fin att gw =
     (case fst (beginCall ep tmo now fin att gw) of
        Some e \<Rightarrow> (Inl e, snd (beginCall ep tmo now fin att gw))
      | None \<Rightarrow> settleCall fin att (snd (beginCall ep tmo now fin att gw)))"
  by (simp add: engineCall_def beginCall_def settleCall_def split: sum.splits attempt.splits)

text \<open>
  For calls that do not overlap, in any gateway state reached from the initial one, the
  trial behaves as documented: with the breaker OPEN and more than 60000 ms since the last
  failure, the check moves the breaker to HALF_OPEN; a success closes it with
  \<open>failures = 0\<close>, a failure opens it again with \<^verbatim>\<open>lastFailureTime\<close> at that failure.
\<close>

lemma trial_without_overlap:
  assumes "gw = runCalls cs gateway0"
    and "state (breaker gw) = OPEN"
    and "c_now c - lastFailureTime (breaker gw) > CIRCUIT_BREAKER_TIMEOUT"
  shows "checkCircuitBreaker (c_now c) (breaker gw) = Inr ((breaker gw)\<lparr>state := HALF_OPEN\<rparr>)
       \<and> (c_attempt c = PostOk d \<longrightarrow>
            fst (analyze c gw) = Inr d
          \<and> breaker (snd (analyze c gw)) = (breaker gw)\<lparr>state := CLOSED, failures := 0\<rparr>)
       \<and> (\<not> succeeded (c_attempt c) \<longrightarrow>
            (\<exists>e. fst (analyze c gw) = Inl e)
          \<and> breaker (snd (analyze c gw)) =
              \<lparr> failures = failures (breaker gw) + 1, lastFailureTime = c_fin c, state = OPEN \<rparr>)"
proof -
  have inv: "breaker_inv (breaker gw)"
    using assms(1) runCalls_inv[OF gateway0_inv] by simp
  obtain ep tmo where a: "analyze c gw = engineCall ep tmo (c_now c) (c_fin c) (c_attempt c) gw"
    using analyze_engineCall by blast
  have 1: "checkCircuitBreaker (c_now c) (breaker gw) = Inr ((breaker gw)\<lparr>state := HALF_OPEN\<rparr>)"
    using assms(2,3) by (simp add: checkCircuitBreaker_def)
  have 2: "c_attempt c = PostOk d \<Longrightarrow>
            fst (analyze c gw) = Inr d
          \<and> breaker (snd (analyze c gw)) = (breaker gw)\<lparr>state := CLOSED, failures := 0\<rparr>"
    using engineCall_trial_ok[OF assms(2,3), of ep tmo "c_fin c" d] a by simp
  have 3: "\<not> succeeded (c_attempt c) \<Longrightarrow>
            (\<exists>e. fst (analyze c gw) = Inl e)
          \<and> breaker (snd (analyze c gw)) =
              \<lparr> failures = failures (breaker gw) + 1, lastFailureTime = c_fin c, state = OPEN \<rparr>"
    using engineCall_trial_fail[OF assms(2,3) inv, of "c_attempt c" ep tmo "c_fin c"] a
      analyze_not_succeeded[of c gw] by simp
  from 1 2 3 show ?thesis by blast
qed

text \<open>
  Claim C6: after the cool-down the next call is the single trial call of the HALF_OPEN
  breaker; its success closes the breaker with \<open>failures = 0\<close> and its failure opens it
  again. With two calls overlapping the code does not do this. From the breaker opened
  by five refusals (\<open>failures = 5\<close>, last failure at 405), the trial begins at 70000 and
  a second call at 70010 is let through as well, since \<^verbatim>\<open>checkCircuitBreaker\<close> only
  holds calls back in state OPEN. When the second call is refused at 70500 and the trial is
  answered at 70900, the successful trial leaves the breaker OPEN with 6 failures; when
  the second call is answered at 70500 and the trial is refused at 70900, the failed
  trial leaves the breaker CLOSED with 1 failure.
\<close>

theorem overlapping_trial:
  "breaker (runCalls fiveRefused gateway0) = \<lparr> failures = 5, lastFailureTime = 405, state = OPEN \<rparr>
   \<and> fst trialBegun = None
   \<and> breaker (snd trialBegun) = \<lparr> failures = 5, lastFailureTime = 405, state = HALF_OPEN \<rparr>
   \<and> fst (secondBegun (PostFail refused)) = None
   \<and> length (posted (snd (secondBegun (PostFail refused))))
        = length (posted (runCalls fiveRefused gateway0)) + 2
   \<and> fst (settleCall 70900 (PostOk ())
             (snd (settleCall 70500 (PostFail refused) (snd (secondBegun (PostFail refused))))))
        = Inr ()
   \<and> breaker (snd (settleCall 70900 (PostOk ())
             (snd (settleCall 70500 (PostFail refused) (snd (secondBegun (PostFail refused)))))))
        = \<lparr> failures = 6, lastFailureTime = 70500, state = OPEN \<rparr>
   \<and> fst (settleCall 70500 (PostOk ()) (snd (secondBegun (PostOk ())))) = Inr ()
   \<and> breaker (snd (settleCall 70900 (PostFail refused)
             (snd (settleCall 70500 (PostOk ()) (snd (secondBegun (PostOk ())))))))
        = \<lparr> failures = 1, lastFailureTime = 70900, state = CLOSED \<rparr>"
  by (simp add: trialBegun_def secondBegun_def beginCall_def settleCall_def fiveRefused_breaker
      checkCircuitBreaker_def recordFailure_def recordSuccess_def mapAIEngineError_def
      CIRCUIT_BREAKER_TIMEOUT_def CIRCUIT_BREAKER_THRESHOLD_def CIRCUIT_BREAKER_RESET_TIMEOUT_def
      refused_def Let_def)

subsection \<open>Rejected calls restart the cool-down\<close>

text \<open>
  Claim C10: a call made while the breaker is OPEN and the cool-down has not elapsed is
  rejected, and the rejection itself goes through \<^verbatim>\<open>recordFailure\<close>: the counter
  grows by one and \<^verbatim>\<open>lastFailureTime\<close> becomes the time of the rejection. A second
  call within the cool-down of that rejection is rejected as well, without a request to
  the AI Engine, even where the breaker as it was before the first rejection would have
  let it through as the HALF_OPEN trial.
\<close>

theorem rejection_restarts_cooldown:
  assumes "state (breaker gw) = OPEN"
    and "c_now c - lastFailureTime (breaker gw) \<le> CIRCUIT_BREAKER_TIMEOUT"
  shows "analyze c gw =
           (Inl (unavailable (retryAfter (c_now c) (lastFailureTime (breaker gw)))),
            gw\<lparr>breaker := \<lparr> failures = failures (breaker gw) + 1,
                             lastFailureTime = c_fin c, state = OPEN \<rparr>\<rparr>)
       \<and> (c_now c' - c_fin c \<le> CIRCUIT_BREAKER_TIMEOUT \<longrightarrow>
            fst (analyze c' (snd (analyze c gw))) = Inl (unavailable (retryAfter (c_now c') (c_fin c)))
          \<and> posted (snd (analyze c' (snd (analyze c gw)))) = posted gw)
       \<and> (c_now c' - lastFailureTime (breaker gw) > CIRCUIT_BREAKER_TIMEOUT \<longrightarrow>
            checkCircuitBreaker (c_now c') (breaker gw) = Inr ((breaker gw)\<lparr>state := HALF_OPEN\<rparr>))"
proof -
  let ?gw' = "gw\<lparr>breaker := \<lparr> failures = failures (breaker gw) + 1,
                             lastFailureTime = c_fin c, state = OPEN \<rparr>\<rparr>"
  have 1: "analyze c gw =
           (Inl (unavailable (retryAfter (c_now c) (lastFailureTime (breaker gw)))), ?gw')"
    using analyze_rejected[OF assms] .
  have 2: "fst (analyze c' (snd (analyze c gw))) = Inl (unavailable (retryAfter (c_now c') (c_fin c)))
          \<and> posted (snd (analyze c' (snd (analyze c gw)))) = posted gw"
    if "c_now c' - c_fin c \<le> CIRCUIT_BREAKER_TIMEOUT"
    using analyze_rejected[of ?gw' c'] that by (simp add: 1)
  have 3: "checkCircuitBreaker (c_now c') (breaker gw) = Inr ((breaker gw)\<lparr>state := HALF_OPEN\<rparr>)"
    if "c_now c' - lastFailureTime (breaker gw) > CIRCUIT_BREAKER_TIMEOUT"
    using that assms(1) by (simp add: checkCircuitBreaker_def)
  from 1 2 3 show ?thesis by blast
qed

theorem rejection_restarts_cooldown_witness:
  "state (breaker (runCalls fiveRefused gateway0)) = OPEN
   \<and> c_now (answeredAt 50000) - lastFailureTime (breaker (runCalls fiveRefused gateway0))
        \<le> CIRCUIT_BREAKER_TIMEOUT
   \<and> c_now (answeredAt 100000) - c_fin (answeredAt 50000) \<le> CIRCUIT_BREAKER_TIMEOUT
   \<and> c_now (answeredAt 100000) - lastFailureTime (breaker (runCalls fiveRefused gateway0))
        > CIRCUIT_BREAKER_TIMEOUT
   \<and> analyze (answeredAt 50000) (runCalls fiveRefused gateway0) =
        (Inl (unavailable 11),
         (runCalls fiveRefused gateway0)
           \<lparr>breaker := \<lparr> failures = 6, lastFailureTime = 50900, state = OPEN \<rparr>\<rparr>)
   \<and> fst (analyze (answeredAt 100000) (snd (analyze (answeredAt 50000) (runCalls fiveRefused gateway0))))
        = Inl (unavailable 11)
   \<and> posted (snd (analyze (answeredAt 100000) (snd (analyze (answeredAt 50000) (runCalls fiveRefused gateway0)))))
        = posted (runCalls fiveRefused gateway0)
   \<and> checkCircuitBreaker 100000 (breaker (runCalls fiveRefused gateway0))
        = Inr \<lparr> failures = 5, lastFailureTime = 405, state = HALF_OPEN \<rparr>"
proof -
  have h1: "state (breaker (runCalls fiveRefused gateway0)) = OPEN"
    by (simp add: fiveRefused_breaker)
  have h2: "c_now (answeredAt 50000) - lastFailureTime (breaker (runCalls fiveRefused gateway0))
        \<le> CIRCUIT_BREAKER_TIMEOUT"
    by (simp add: fiveRefused_breaker CIRCUIT_BREAKER_TIMEOUT_def answeredAt_def)
  have h3: "c_now (answeredAt 100000) - c_fin (answeredAt 50000) \<le> CIRCUIT_BREAKER_TIMEOUT"
    by (simp add: CIRCUIT_BREAKER_TIMEOUT_def answeredAt_def)
  have h4: "c_now (answeredAt 100000) - lastFailureTime (breaker (runCalls fiveRefused gateway0))
        > CIRCUIT_BREAKER_TIMEOUT"
    by (simp add: fiveRefused_breaker CIRCUIT_BREAKER_TIMEOUT_def answeredAt_def)
  have v1: "retryAfter (c_now (answeredAt 50000)) (lastFailureTime (breaker (runCalls fiveRefused gateway0))) = 11"
    by (simp add: fiveRefused_breaker CIRCUIT_BREAKER_TIMEOUT_def answeredAt_def retryAfter_def)
  have v2: "retryAfter (c_now (answeredAt 100000)) (c_fin (answeredAt 50000)) = 11"
    by (simp add: CIRCUIT_BREAKER_TIMEOUT_def answeredAt_def retryAfter_def)
  have v3: "failures (breaker (runCalls fiveRefused gateway0)) + 1 = 6"
    "c_fin (answeredAt 50000) = 50900"
    by (simp_all add: fiveRefused_breaker answeredAt_def)
  note r = rejection_restarts_cooldown[OF h1 h2, of "answeredAt 100000"]
  from r have a: "analyze (answeredAt 50000) (runCalls fiveRefused gateway0) =
        (Inl (unavailable 11),
         (runCalls fiveRefused gateway0)
           \<lparr>breaker := \<lparr> failures = 6, lastFailureTime = 50900, state = OPEN \<rparr>\<rparr>)"
    unfolding v1 v3 by blast
  from r h3 have b:
    "fst (analyze (answeredAt 100000) (snd (analyze (answeredAt 50000) (runCalls fiveRefused gateway0))))
        = Inl (unavailable (retryAfter (c_now (answeredAt 100000)) (c_fin (answeredAt 50000))))
     \<and> posted (snd (analyze (answeredAt 100000) (snd (analyze (answeredAt 50000) (runCalls fiveRefused gateway0)))))
        = posted (runCalls fiveRefused gateway0)"
    by blast
  from r h4 have c:
    "checkCircuitBreaker (c_now (answeredAt 100000)) (breaker (runCalls fiveRefused gateway0))
        = Inr ((breaker (runCalls fiveRefused gateway0))\<lparr>state := HALF_OPEN\<rparr>)"
    by blast
  have b': "fst (analyze (answeredAt 100000) (snd (analyze (answeredAt 50000) (runCalls fiveRefused gateway0))))
        = Inl (unavailable 11)"
    "posted (snd (analyze (answeredAt 100000) (snd (analyze (answeredAt 50000) (runCalls fiveRefused gateway0)))))
        = posted (runCalls fiveRefused gateway0)"
    using b v2 by simp_all
  have c': "checkCircuitBreaker 100000 (breaker (runCalls fiveRefused gateway0))
        = Inr \<lparr> failures = 5, lastFailureTime = 405, state = HALF_OPEN \<rparr>"
    using c by (simp add: fiveRefused_breaker answeredAt_def)
  from a b' c' h1 h2 h3 h4 show ?thesis
    by blast
qed

section \<open>Properties of the analysis processor\<close>

lemma oneWrite_failed:
  "oneWrite doc (doc\<lparr>status := Failed, error := Some m, completedAt := Some t\<rparr>)"
  by (simp add: oneWrite_def)

lemma oneWrite_completed:
  "oneWrite doc (doc\<lparr>status := Completed, result := Some res, completedAt := Some t\<rparr>)"
  by (simp add: oneWrite_def)

lemma persistFailure_analyses:
  "analyses (snd (persistFailure env i caught w)) = analyses w
   \<or> (\<exists>doc. analyses w i = Some doc \<and> db_failed env = DbApplied
        \<and> analyses (snd (persistFailure env i caught w)) =
            (analyses w)(i \<mapsto> doc\<lparr>status := Failed, error := Some (thrownMessage caught),
                                   completedAt := Some (t_failed env)\<rparr>))"
  by (auto simp: persistFailure_def updateAnalysis_def applySet_def
      split: dbOutcome.splits option.splits)



lemma persistFailure_oneWrite:
  "analyses (snd (persistFailure env i caught w)) = analyses w
   \<or> (\<exists>doc doc'. analyses w i = Some doc \<and> oneWrite doc doc'
        \<and> analyses (snd (persistFailure env i caught w)) = (analyses w)(i \<mapsto> doc'))"
  using persistFailure_analyses[of env i caught w] oneWrite_failed
  by metis

lemma persistResult_thrown:
  "fst (persistResult env i res w) = Inl t \<Longrightarrow>
     snd (persistResult env i res w) = w
     \<and> (\<exists>e. t = Custom e \<and> (message e = ''Failed to update analysis'' \<or> message e = ''Analysis not found''))"
  by (auto simp: persistResult_def updateAnalysis_def split: dbOutcome.splits option.splits)

lemma persistResult_done:
  "fst (persistResult env i res w) = Inr u \<Longrightarrow>
     \<exists>doc. analyses w i = Some doc
       \<and> analyses (snd (persistResult env i res w)) =
           (analyses w)(i \<mapsto> doc\<lparr>status := Completed, result := Some res,
                                  completedAt := Some (t_completed env)\<rparr>)"
  by (auto simp: persistResult_def updateAnalysis_def applySet_def
      split: dbOutcome.splits option.splits)

lemma tryImageAnalysis_thrown:
  "fst (tryImageAnalysis env i w) = Inl t \<Longrightarrow>
     analyses (snd (tryImageAnalysis env i w)) = analyses w"
  by (auto simp: tryImageAnalysis_def Let_def split: sum.splits option.splits
      dest: persistResult_thrown)

lemma tryVideoAnalysis_thrown:
  "fst (tryVideoAnalysis env i w) = Inl t \<Longrightarrow>
     analyses (snd (tryVideoAnalysis env i w)) = analyses w"
  by (auto simp: tryVideoAnalysis_def Let_def split: sum.splits option.splits
      dest: persistResult_thrown)

lemma tryImageAnalysis_done:
  "fst (tryImageAnalysis env i w) = Inr u \<Longrightarrow>
     \<exists>doc doc'. analyses w i = Some doc \<and> oneWrite doc doc'
       \<and> analyses (snd (tryImageAnalysis env i w)) = (analyses w)(i \<mapsto> doc')"
proof -
  assume a: "fst (tryImageAnalysis env i w) = Inr u"
  let ?ans = "analyzeImage (t_check env) (t_record env) (outcome env) (engine w)"
  from a obtain r where r: "fst ?ans = Inr (Some r)"
    by (auto simp: tryImageAnalysis_def Let_def split: sum.splits option.splits)
  with a have "fst (persistResult env i (imageResult r) (w\<lparr>engine := snd ?ans\<rparr>)) = Inr u"
    by (simp add: tryImageAnalysis_def Let_def)
  from persistResult_done[OF this] r show ?thesis
    using oneWrite_completed by (fastforce simp: tryImageAnalysis_def Let_def)
qed

lemma tryVideoAnalysis_done:
  "fst (tryVideoAnalysis env i w) = Inr u \<Longrightarrow>
     \<exists>doc doc'. analyses w i = Some doc \<and> oneWrite doc doc'
       \<and> analyses (snd (tryVideoAnalysis env i w)) = (analyses w)(i \<mapsto> doc')"
proof -
  assume a: "fst (tryVideoAnalysis env i w) = Inr u"
  let ?ans = "analyzeVideo (t_check env) (t_record env) (outcome env) (engine w)"
  from a obtain r where r: "fst ?ans = Inr (Some r)"
    by (auto simp: tryVideoAnalysis_def Let_def split: sum.splits option.splits)
  with a have "fst (persistResult env i (videoResult r) (w\<lparr>engine := snd ?ans\<rparr>)) = Inr u"
    by (simp add: tryVideoAnalysis_def Let_def)
  from persistResult_done[OF this] r show ?thesis
    using oneWrite_completed by (fastforce simp: tryVideoAnalysis_def Let_def)
qed

lemma processImageAnalysis_oneWrite:
  "analyses (snd (processImageAnalysis env i p w)) = analyses w
   \<or> (\<exists>doc doc'. analyses w i = Some doc \<and> oneWrite doc doc'
        \<and> analyses (snd (processImageAnalysis env i p w)) = (analyses w)(i \<mapsto> doc'))"
proof (cases "fst (tryImageAnalysis env i w)")
  case (Inl caught)
  then show ?thesis
    using persistFailure_oneWrite[of env i caught "snd (tryImageAnalysis env i w)"]
      tryImageAnalysis_thrown[OF Inl]
    by (simp add: processImageAnalysis_def cleanUp_def)
next
  case (Inr u)
  then show ?thesis
    using tryImageAnalysis_done[OF Inr]
    by (simp add: processImageAnalysis_def cleanUp_def)
qed

lemma processVideoAnalysis_oneWrite:
  "analyses (snd (processVideoAnalysis env i p w)) = analyses w
   \<or> (\<exists>doc doc'. analyses w i = Some doc \<and> oneWrite doc doc'
        \<and> analyses (snd (processVideoAnalysis env i p w)) = (analyses w)(i \<mapsto> doc'))"
proof (cases "fst (tryVideoAnalysis env i w)")
  case (Inl caught)
  then show ?thesis
    using persistFailure_oneWrite[of env i caught "snd (tryVideoAnalysis env i w)"]
      tryVideoAnalysis_thrown[OF Inl]
    by (simp add: processVideoAnalysis_def cleanUp_def)
next
  case (Inr u)
  then show ?thesis
    using tryVideoAnalysis_done[OF Inr]
    by (simp add: processVideoAnalysis_def cleanUp_def)
qed

lemma startAnalysis_oneWrite:
  "analyses (startAnalysis env i p ct w) = analyses w
   \<or> (\<exists>doc doc'. analyses w i = Some doc \<and> oneWrite doc doc'
        \<and> analyses (startAnalysis env i p ct w) = (analyses w)(i \<mapsto> doc'))"
  using processImageAnalysis_oneWrite[of env i p w] processVideoAnalysis_oneWrite[of env i p w]
  by (simp add: startAnalysis_def)

lemma oneWrite_consistent: "untouched doc \<Longrightarrow> oneWrite doc doc' \<Longrightarrow> consistent doc'"
  by (auto simp: untouched_def oneWrite_def consistent_def)

lemma oneWrite_forward: "untouched doc \<Longrightarrow> oneWrite doc doc' \<Longrightarrow> forward (status doc) (status doc')"
  by (auto simp: untouched_def oneWrite_def forward_def)

lemma distinct_fst_remove1:
  "distinct (map fst xs) \<Longrightarrow> distinct (map fst (remove1 x xs))"
  by (induction xs) (auto simp: image_iff dest: notin_set_remove1)

lemma distinct_fst_other:
  "distinct (map fst xs) \<Longrightarrow> x \<in> set xs \<Longrightarrow> y \<in> set (remove1 x xs) \<Longrightarrow> fst y \<noteq> fst x"
proof (induction xs)
  case Nil
  then show ?case by simp
next
  case (Cons a xs)
  show ?case
  proof (cases "x = a")
    case True
    with Cons.prems show ?thesis by (auto simp: image_iff)
  next
    case False
    with Cons show ?thesis
      by (auto simp: image_iff dest: notin_set_remove1)
  qed
qed

lemma fire_Run_inv:
  assumes "sys_inv s"
  shows "sys_inv (fire (Run env i p ct) s)"
proof (cases "(i, p, ct) \<in> set (pending s)")
  case False
  with assms show ?thesis by simp
next
  case True
  let ?w = "sys_backend s" and ?w' = "startAnalysis env i p ct (sys_backend s)"
  from assms have dist: "distinct (map fst (pending s))"
    and pend: "\<And>task. task \<in> set (pending s) \<Longrightarrow>
                 \<exists>doc. analyses ?w (fst task) = Some doc \<and> untouched doc"
    and cons: "\<And>j doc. analyses ?w j = Some doc \<Longrightarrow> consistent doc"
    by (auto simp: sys_inv_def)
  from pend[OF True] obtain doc0 where doc0: "analyses ?w i = Some doc0" "untouched doc0"
    by auto
  have other: "analyses ?w' j = analyses ?w j" if "j \<noteq> i" for j
    using startAnalysis_oneWrite[of env i p ct ?w] that by auto
  have own: "\<exists>doc'. analyses ?w' i = Some doc' \<and> oneWrite doc0 doc'"
    using startAnalysis_oneWrite[of env i p ct ?w] doc0 by (auto simp: oneWrite_def)
  have 1: "distinct (map fst (remove1 (i, p, ct) (pending s)))"
    using dist by (rule distinct_fst_remove1)
  have 2: "\<exists>doc. analyses ?w' (fst task) = Some doc \<and> untouched doc"
    if "task \<in> set (remove1 (i, p, ct) (pending s))" for task
  proof -
    have "fst task \<noteq> i"
      using distinct_fst_other[OF dist True that] by simp
    moreover have "task \<in> set (pending s)"
      using that set_remove1_subset[of "(i, p, ct)" "pending s"] by auto
    ultimately show ?thesis using pend other by simp
  qed
  have 3: "consistent doc" if "analyses ?w' j = Some doc" for j doc
  proof (cases "j = i")
    case True
    with own that doc0 show ?thesis by (auto dest: oneWrite_consistent)
  next
    case False
    with other that cons show ?thesis by simp
  qed
  from True 1 2 3 show ?thesis by (simp add: sys_inv_def)
qed

lemma fire_Submit_inv:
  assumes "sys_inv s"
  shows "sys_inv (fire (Submit db newId now params) s)"
proof (cases "analyses (sys_backend s) newId \<noteq> None \<or> db \<noteq> DbApplied")
  case True
  with assms show ?thesis
    by (cases db) (auto simp: createAnalysis_def)
next
  case False
  then have fresh: "analyses (sys_backend s) newId = None" and db: "db = DbApplied"
    by auto
  from assms have dist: "distinct (map fst (pending s))"
    and pend: "\<And>task. task \<in> set (pending s) \<Longrightarrow>
                 \<exists>doc. analyses (sys_backend s) (fst task) = Some doc \<and> untouched doc"
    and cons: "\<And>j doc. analyses (sys_backend s) j = Some doc \<Longrightarrow> consistent doc"
    by (auto simp: sys_inv_def)
  have notin: "newId \<notin> fst ` set (pending s)"
    using pend fresh by force
  show ?thesis
    using fresh db dist notin pend cons
    by (auto simp: sys_inv_def createAnalysis_def Let_def untouched_def consistent_def)
qed

lemma fire_inv: "sys_inv s \<Longrightarrow> sys_inv (fire ev s)"
  by (cases ev) (simp_all only: fire_Run_inv fire_Submit_inv)

lemma runEvents_inv: "sys_inv s \<Longrightarrow> sys_inv (runEvents evs s)"
  by (induction evs arbitrary: s) (simp_all add: fire_inv)

lemma system0_inv: "sys_inv system0"
  by (simp add: sys_inv_def system0_def)

lemmas processor_eval =
  processImageAnalysis_def processVideoAnalysis_def tryImageAnalysis_def tryVideoAnalysis_def
  tryAnalysis_def startAnalysis_def persistFailure_def
  persistResult_def cleanUp_def deleteFile_def updateAnalysis_def applySet_def createAnalysis_def
  imageResult_def videoResult_def or_number_def system0_def DEFAULT_TTL_DAYS_def
  exampleParams_def rawRejection_def rejectingEnv_def exampleData_def answeringEnv_def
  submitted_def exampleDoc_def storeFailingEnv_def objectRejection_def objectEnv_def
  nullPayloadEnv_def storeDownEnv_def Let_def

lemma submitted_eval:
  "submitted = \<lparr> sys_backend = \<lparr> engine = gateway0, analyses = [''a1'' \<mapsto> exampleDoc],
                                   uploads = {''uploads/a1.jpg''} \<rparr>,
                  pending = [(''a1'', ''uploads/a1.jpg'', Image)] \<rparr>"
  by (simp add: processor_eval)

lemma rejected_eval:
  "analyses (sys_backend (fire (Run rejectingEnv ''a1'' ''uploads/a1.jpg'' Image) submitted)) ''a1''
    = Some (exampleDoc\<lparr> status := Failed,
         error := Some ''PIL.UnidentifiedImageError: cannot identify image file /tmp/tmpk3x9.jpg'',
         completedAt := Some 2500 \<rparr>)"
  by (simp add: submitted_eval) (simp add: processor_eval gateway_eval)

lemma answered_eval:
  "analyses (sys_backend (fire (Run answeringEnv ''a1'' ''uploads/a1.jpg'' Image) submitted)) ''a1''
    = Some (exampleDoc\<lparr> status := Completed,
         result := Some (imageResult exampleData),
         completedAt := Some 2400 \<rparr>)"
  by (simp add: submitted_eval) (simp add: processor_eval gateway_eval)







subsection \<open>What is persisted on failure\<close>









subsection \<open>The status of a record over time\<close>

text \<open>
  Claim C4, as stated: a record starts with status \<^verbatim>\<open>'pending'\<close>. The code has no such
  status: \<^verbatim>\<open>createAnalysis\<close> stores the new record with status \<^verbatim>\<open>'processing'\<close>.
\<close>

theorem created_as_processing:
  "(case createAnalysis DbApplied ''a1'' 1000 exampleParams Map.empty of
      Inl thrown \<Rightarrow> False
    | Inr created \<Rightarrow>
        status_literal (status (snd (fst created))) = ''processing''
      \<and> status_literal (status (snd (fst created))) \<noteq> ''pending'')"
  by (simp add: createAnalysis_def Let_def status_literal_def)

text \<open>
  Claim C4, amended: in every state reached from the empty system by submissions and task
  runs, a step that adds a record adds it with status \<^verbatim>\<open>'processing'\<close>, and a step
  leaves every existing record in place with its status unchanged or moved from
  \<^verbatim>\<open>'processing'\<close> to \<^verbatim>\<open>'completed'\<close> or \<^verbatim>\<open>'failed'\<close>; a record that is
  completed or failed keeps that status.
\<close>

theorem status_moves_forward:
  "(analyses (sys_backend (runEvents evs system0)) i = None \<longrightarrow>
      analyses (sys_backend (fire ev (runEvents evs system0))) i = Some doc' \<longrightarrow>
      status doc' = Processing)
   \<and> (analyses (sys_backend (runEvents evs system0)) i = Some doc \<longrightarrow>
      (\<exists>doc''. analyses (sys_backend (fire ev (runEvents evs system0))) i = Some doc''
         \<and> forward (status doc) (status doc'')))"
proof -
  let ?s = "runEvents evs system0"
  have inv: "sys_inv ?s"
    using system0_inv by (rule runEvents_inv)
  then have pend: "\<And>task. task \<in> set (pending ?s) \<Longrightarrow>
                 \<exists>d. analyses (sys_backend ?s) (fst task) = Some d \<and> untouched d"
    by (auto simp: sys_inv_def)
  show ?thesis
  proof (cases ev)
    case (Submit db newId now params)
    then show ?thesis
      by (cases db) (auto simp: createAnalysis_def Let_def forward_def)
  next
    case (Run env j p ct)
    show ?thesis
    proof (cases "(j, p, ct) \<in> set (pending ?s)")
      case False
      with Run show ?thesis by (simp add: forward_def)
    next
      case True
      from pend[OF True] obtain d where d: "analyses (sys_backend ?s) j = Some d" "untouched d"
        by auto
      from startAnalysis_oneWrite[of env j p ct "sys_backend ?s"]
      consider "analyses (startAnalysis env j p ct (sys_backend ?s)) = analyses (sys_backend ?s)"
        | d' where "oneWrite d d'"
           "analyses (startAnalysis env j p ct (sys_backend ?s)) = (analyses (sys_backend ?s))(j \<mapsto> d')"
        using d by auto
      then show ?thesis
      proof cases
        case 1
        with Run True show ?thesis by (simp add: forward_def)
      next
        case 2
        with Run True d oneWrite_forward[OF d(2) 2(1)] show ?thesis
          by (auto simp: forward_def)
      qed
    qed
  qed
qed

theorem status_moves_forward_witness:
  "analyses (sys_backend (runEvents [] system0)) ''a1'' = None
   \<and> analyses (sys_backend (fire (Submit DbApplied ''a1'' 1000 exampleParams) (runEvents [] system0))) ''a1''
       = Some exampleDoc
   \<and> status exampleDoc = Processing
   \<and> analyses (sys_backend (runEvents [Submit DbApplied ''a1'' 1000 exampleParams] system0)) ''a1''
       = Some exampleDoc
   \<and> analyses (sys_backend (fire (Run answeringEnv ''a1'' ''uploads/a1.jpg'' Image)
        (runEvents [Submit DbApplied ''a1'' 1000 exampleParams] system0))) ''a1''
       = Some (exampleDoc\<lparr> status := Completed, result := Some (imageResult exampleData),
                 completedAt := Some 2400 \<rparr>)
   \<and> forward (status exampleDoc)
       (status (exampleDoc\<lparr> status := Completed, result := Some (imageResult exampleData),
                 completedAt := Some 2400 \<rparr>))"
proof -
  have s: "runEvents [Submit DbApplied ''a1'' 1000 exampleParams] system0 = submitted"
    "fire (Submit DbApplied ''a1'' 1000 exampleParams) (runEvents [] system0) = submitted"
    by (simp_all add: submitted_def)
  have a: "analyses (sys_backend (runEvents [] system0)) ''a1'' = None"
    by (simp add: system0_def)
  have b: "analyses (sys_backend (fire (Submit DbApplied ''a1'' 1000 exampleParams) (runEvents [] system0))) ''a1''
       = Some exampleDoc"
    unfolding s by (simp add: submitted_eval)
  have c: "analyses (sys_backend (runEvents [Submit DbApplied ''a1'' 1000 exampleParams] system0)) ''a1''
       = Some exampleDoc"
    unfolding s by (simp add: submitted_eval)
  have d: "analyses (sys_backend (fire (Run answeringEnv ''a1'' ''uploads/a1.jpg'' Image)
        (runEvents [Submit DbApplied ''a1'' 1000 exampleParams] system0))) ''a1''
       = Some (exampleDoc\<lparr> status := Completed, result := Some (imageResult exampleData),
                 completedAt := Some 2400 \<rparr>)"
    unfolding s by (rule answered_eval)
  from status_moves_forward[of "[]" "''a1''" "Submit DbApplied ''a1'' 1000 exampleParams" exampleDoc exampleDoc]
    a b have e: "status exampleDoc = Processing" by blast
  from status_moves_forward[of "[Submit DbApplied ''a1'' 1000 exampleParams]" "''a1''"
      "Run answeringEnv ''a1'' ''uploads/a1.jpg'' Image" exampleDoc exampleDoc]
    c d have f: "forward (status exampleDoc)
       (status (exampleDoc\<lparr> status := Completed, result := Some (imageResult exampleData),
                 completedAt := Some 2400 \<rparr>))" by auto
  from a b c d e f show ?thesis by blast
qed

subsection \<open>Presence of result and error\<close>

text \<open>
  Claim C9: in every state reached from the empty system by submissions and task runs,
  every record has a result exactly when its status is \<^verbatim>\<open>'completed'\<close> and an error
  exactly when its status is \<^verbatim>\<open>'failed'\<close>.
\<close>

theorem record_presence_invariant:
  assumes "analyses (sys_backend (runEvents evs system0)) i = Some doc"
  shows "(result doc \<noteq> None) = (status doc = Completed)
       \<and> (error doc \<noteq> None) = (status doc = Failed)"
proof -
  have "sys_inv (runEvents evs system0)"
    using system0_inv by (rule runEvents_inv)
  with assms have "consistent doc"
    by (simp add: sys_inv_def)
  then show ?thesis by (simp add: consistent_def)
qed

theorem record_presence_invariant_witness:
  "analyses (sys_backend (runEvents
       [Submit DbApplied ''a1'' 1000 exampleParams, Run rejectingEnv ''a1'' ''uploads/a1.jpg'' Image]
       system0)) ''a1''
     = Some (exampleDoc\<lparr> status := Failed,
         error := Some ''PIL.UnidentifiedImageError: cannot identify image file /tmp/tmpk3x9.jpg'',
         completedAt := Some 2500 \<rparr>)
   \<and> (result (exampleDoc\<lparr> status := Failed,
         error := Some ''PIL.UnidentifiedImageError: cannot identify image file /tmp/tmpk3x9.jpg'',
         completedAt := Some 2500 \<rparr>) \<noteq> None)
      = (status (exampleDoc\<lparr> status := Failed,
         error := Some ''PIL.UnidentifiedImageError: cannot identify image file /tmp/tmpk3x9.jpg'',
         completedAt := Some 2500 \<rparr>) = Completed)
   \<and> (error (exampleDoc\<lparr> status := Failed,
         error := Some ''PIL.UnidentifiedImageError: cannot identify image file /tmp/tmpk3x9.jpg'',
         completedAt := Some 2500 \<rparr>) \<noteq> None)
      = (status (exampleDoc\<lparr> status := Failed,
         error := Some ''PIL.UnidentifiedImageError: cannot identify image file /tmp/tmpk3x9.jpg'',
         completedAt := Some 2500 \<rparr>) = Failed)"
proof -
  have run: "runEvents
       [Submit DbApplied ''a1'' 1000 exampleParams, Run rejectingEnv ''a1'' ''uploads/a1.jpg'' Image]
       system0 = fire (Run rejectingEnv ''a1'' ''uploads/a1.jpg'' Image) submitted"
    by (simp add: submitted_def)
  have at: "analyses (sys_backend (runEvents
       [Submit DbApplied ''a1'' 1000 exampleParams, Run rejectingEnv ''a1'' ''uploads/a1.jpg'' Image]
       system0)) ''a1''
     = Some (exampleDoc\<lparr> status := Failed,
         error := Some ''PIL.UnidentifiedImageError: cannot identify image file /tmp/tmpk3x9.jpg'',
         completedAt := Some 2500 \<rparr>)"
    unfolding run by (rule rejected_eval)
  from record_presence_invariant[OF at] at show ?thesis by blast
qed

section \<open>Properties of the aggregator and the reducer\<close>

lemma baseWeight_pos: "0 < baseWeight m"
  by (cases m) simp_all

lemma weights_sum: "(\<Sum>m\<leftarrow>[Classifier, Deepfake, GanFingerprint, Forgery, Compression]. baseWeight m) = 1"
  by simp

lemma weighted_bounds:
  assumes "\<forall>p\<in>set ps. 0 \<le> score p \<and> score p \<le> 1 \<and> 0 \<le> confidence p \<and> confidence p \<le> 1"
  shows "0 \<le> (\<Sum>p\<leftarrow>ps. effectiveWeight p * score p)"
    and "(\<Sum>p\<leftarrow>ps. effectiveWeight p * score p) \<le> denom ps"
proof -
  have w: "0 \<le> effectiveWeight p" if "p \<in> set ps" for p
    using assms that baseWeight_pos[of "modelId p"] by (simp add: effectiveWeight_def)
  show "0 \<le> (\<Sum>p\<leftarrow>ps. effectiveWeight p * score p)"
    using assms w by (intro sum_list_nonneg) auto
  have "effectiveWeight p * score p \<le> effectiveWeight p" if "p \<in> set ps" for p
    using assms w[OF that] that by (simp add: mult_left_le)
  then show "(\<Sum>p\<leftarrow>ps. effectiveWeight p * score p) \<le> denom ps"
    unfolding denom_def by (rule sum_list_mono)
qed

lemma round_percent:
  assumes "0 \<le> n" and "n \<le> d" and "0 < (d::real)"
  shows "0 \<le> round (100 * n / d)" and "round (100 * n / d) \<le> 100"
proof -
  have "0 \<le> 100 * n / d" using assms by simp
  then have "round (0::real) \<le> round (100 * n / d)" by (rule round_mono)
  then show "0 \<le> round (100 * n / d)" by simp
  have "100 * n / d \<le> 100" using assms by (simp add: divide_le_eq)
  then have "round (100 * n / d) \<le> round (100::real)" by (rule round_mono)
  then show "round (100 * n / d) \<le> 100" by simp
qed

lemma denom_zero:
  "\<forall>p\<in>set ps. confidence p = 0 \<Longrightarrow> denom ps = 0"
  by (induction ps) (simp_all add: denom_def effectiveWeight_def)

lemma sums_unfolded:
  "denom ps = (\<Sum>p\<leftarrow>ps. baseWeight (modelId p) * confidence p)"
  "(\<Sum>p\<leftarrow>ps. effectiveWeight p * score p) = (\<Sum>p\<leftarrow>ps. baseWeight (modelId p) * confidence p * score p)"
  by (simp_all add: denom_def effectiveWeight_def)

subsection \<open>The worked scenario of the aggregator\<close>

text \<open>
  Claim C3, as stated: for classifier (0.9, 1.0), deepfake (1.0, 1.0), ganFingerprint
  (0.8, 0.5), forgery (0.95, 1.0) and compression (0.7, 1.0) the weighted computation
  yields 89. The formula gives \<open>0.8125 / 0.9\<close>, that is 90.28, hence 90.
\<close>

theorem scenario_is_not_89:
  "aggregate scenarioOutputs \<noteq> 89"
  by (simp add: aggregate_def denom_def effectiveWeight_def scenarioOutputs_def clamp_def round_def)

text \<open>
  Claim C3, amended: on that input the weighted computation yields 90; the value 89 is
  what the base weights give when the confidences are left out of the weighting.
\<close>

theorem scenario_is_90:
  "aggregate scenarioOutputs = 90
   \<and> round (100 * (\<Sum>p\<leftarrow>scenarioOutputs. baseWeight (modelId p) * score p)) = 89"
  by (simp add: aggregate_def denom_def effectiveWeight_def scenarioOutputs_def clamp_def round_def)

subsection \<open>Range of the Truth Score\<close>

text \<open>
  Claim C7: for every list of outputs with all scores and confidences in \<open>[0, 1]\<close>, the
  aggregator's result is an integer in \<open>[0, 100]\<close>; it is the rounded weighted mean
  when the sum of the effective weights is positive, and it is 50 when every confidence
  is 0.
\<close>

theorem aggregate_range:
  assumes "\<forall>p\<in>set ps. 0 \<le> score p \<and> score p \<le> 1 \<and> 0 \<le> confidence p \<and> confidence p \<le> 1"
  shows "0 \<le> aggregate ps \<and> aggregate ps \<le> 100
       \<and> (0 < (\<Sum>p\<leftarrow>ps. baseWeight (modelId p) * confidence p) \<longrightarrow>
            aggregate ps =
              round (100 * (\<Sum>p\<leftarrow>ps. baseWeight (modelId p) * confidence p * score p)
                       / (\<Sum>p\<leftarrow>ps. baseWeight (modelId p) * confidence p)))
       \<and> ((\<forall>p\<in>set ps. confidence p = 0) \<longrightarrow> aggregate ps = 50)"
proof -
  let ?n = "\<Sum>p\<leftarrow>ps. effectiveWeight p * score p"
  note b = weighted_bounds[OF assms]
  have r: "0 \<le> round (100 * ?n / denom ps) \<and> round (100 * ?n / denom ps) \<le> 100"
    if "0 < denom ps"
    using round_percent[OF b that] by simp
  have 1: "0 \<le> aggregate ps \<and> aggregate ps \<le> 100"
    by (simp add: aggregate_def clamp_def)
  have 2: "aggregate ps = round (100 * ?n / denom ps)" if "0 < denom ps"
    using r[OF that] that by (simp add: aggregate_def clamp_def)
  have 3: "aggregate ps = 50" if "\<forall>p\<in>set ps. confidence p = 0"
    using denom_zero[OF that] by (simp add: aggregate_def)
  from 1 2 3 show ?thesis
    unfolding sums_unfolded by blast
qed

theorem aggregate_range_witness:
  "list_all (\<lambda>p. 0 \<le> score p \<and> score p \<le> 1 \<and> 0 \<le> confidence p \<and> confidence p \<le> 1) twoModels
   \<and> 0 < (\<Sum>p\<leftarrow>twoModels. baseWeight (modelId p) * confidence p)
   \<and> aggregate twoModels = 36
   \<and> list_all (\<lambda>p. 0 \<le> score p \<and> score p \<le> 1 \<and> 0 \<le> confidence p \<and> confidence p \<le> 1) degraded
   \<and> list_all (\<lambda>p. confidence p = 0) degraded
   \<and> aggregate degraded = 50"
  using aggregate_range[of twoModels] aggregate_range[of degraded]
  by (simp add: twoModels_def degraded_def round_def)

subsection \<open>The timeline of a video\<close>

text \<open>
  Claim C8: the reducer yields one entry per frame, numbered from 0, each marked
  suspicious exactly when its frame score is below 50, and the video's score is the
  unweighted arithmetic mean of the frame scores; the frame scores 80, 40, 90 give three
  entries of which only the one with index 1 is suspicious, and the video score 70.
\<close>

theorem reducer_timeline:
  "length (fst (reduceVideo whole frames)) = (if frames = [] then 1 else length frames)
   \<and> map frameIndex (fst (reduceVideo whole frames)) = [0..<length (fst (reduceVideo whole frames))]
   \<and> map suspicious (fst (reduceVideo whole frames))
       = map (\<lambda>entry. frameScore entry < 50) (fst (reduceVideo whole frames))
   \<and> map frameScore (fst (reduceVideo whole frames))
       = map (\<lambda>f. aggregate (snd f)) (if frames = [] then [(0, whole)] else frames)
   \<and> snd (reduceVideo whole frames)
       = real_of_int (sum_list (map frameScore (fst (reduceVideo whole frames))))
           / real (length (fst (reduceVideo whole frames)))
   \<and> reduceScores [(0, 80), (1, 40), (2, 90)]
       = ([\<lparr> frameIndex = 0, timestampSec = 0, frameScore = 80, suspicious = False \<rparr>,
           \<lparr> frameIndex = 1, timestampSec = 1, frameScore = 40, suspicious = True \<rparr>,
           \<lparr> frameIndex = 2, timestampSec = 2, frameScore = 90, suspicious = False \<rparr>], 70)
   \<and> reduceVideo [] scenarioFrames = reduceScores [(0, 80), (1, 40), (2, 90)]"
proof -
  let ?fs = "map (\<lambda>f. (fst f, aggregate (snd f))) (if frames = [] then [(0, whole)] else frames)"
  have rv: "reduceVideo whole frames = reduceScores ?fs"
    by (simp add: reduceVideo_def Let_def)
  have tl: "fst (reduceScores xs) = map (\<lambda>kf. timelineEntry (fst kf) (snd kf)) (enumerate 0 xs)" for xs
    by (simp add: reduceScores_def)
  have len: "length (fst (reduceScores xs)) = length xs" for xs
    by (simp add: tl)
  have idx: "map frameIndex (fst (reduceScores xs)) = [0..<length xs]" for xs
    by (simp add: tl timelineEntry_def comp_def enumerate_eq_zip)
  have sc: "map frameScore (fst (reduceScores xs)) = map snd xs" for xs
    by (simp add: tl timelineEntry_def comp_def enumerate_eq_zip map_snd_zip_take flip: map_map[unfolded comp_def])
  have su: "map suspicious (fst (reduceScores xs)) = map (\<lambda>entry. frameScore entry < 50) (fst (reduceScores xs))" for xs
    by (simp add: tl timelineEntry_def)
  have mn: "snd (reduceScores xs) = real_of_int (sum_list (map snd xs)) / real (length xs)" for xs
    by (simp add: reduceScores_def meanScore_def)
  have 1: "length (fst (reduceVideo whole frames)) = (if frames = [] then 1 else length frames)"
    by (simp add: rv len)
  have 2: "map frameIndex (fst (reduceVideo whole frames)) = [0..<length (fst (reduceVideo whole frames))]"
    unfolding rv idx len ..
  have 3: "map suspicious (fst (reduceVideo whole frames))
       = map (\<lambda>entry. frameScore entry < 50) (fst (reduceVideo whole frames))"
    unfolding rv by (rule su)
  have 4: "map frameScore (fst (reduceVideo whole frames))
       = map (\<lambda>f. aggregate (snd f)) (if frames = [] then [(0, whole)] else frames)"
    unfolding rv sc by (simp add: comp_def)
  have 5: "snd (reduceVideo whole frames)
       = real_of_int (sum_list (map frameScore (fst (reduceVideo whole frames))))
           / real (length (fst (reduceVideo whole frames)))"
    unfolding rv mn sc len ..
  have 6: "reduceScores [(0, 80), (1, 40), (2, 90)]
       = ([\<lparr> frameIndex = 0, timestampSec = 0, frameScore = 80, suspicious = False \<rparr>,
           \<lparr> frameIndex = 1, timestampSec = 1, frameScore = 40, suspicious = True \<rparr>,
           \<lparr> frameIndex = 2, timestampSec = 2, frameScore = 90, suspicious = False \<rparr>], 70)"
    by (simp add: reduceScores_def timelineEntry_def meanScore_def enumerate_eq_zip upt_rec)
  have 7: "reduceVideo [] scenarioFrames = reduceScores [(0, 80), (1, 40), (2, 90)]"
    by (simp add: reduceVideo_def scenarioFrames_def aggregate_def denom_def effectiveWeight_def
        clamp_def round_def)
  from 1 2 3 4 5 6 7 show ?thesis by blast
qed

end
